theory Spec2Isabelle
  imports Main "HOL-Library.Sublist"
begin

section \<open>Data model\<close>

text \<open>
  The two pipelines (\<^verbatim>\<open>pipelines/chipseq.py\<close> and \<^verbatim>\<open>pipelines/quantseq.py\<close>) are
  straight-line scripts over three objects read from a pickle: the run options
  \<^verbatim>\<open>args\<close>, the project \<^verbatim>\<open>prj\<close> and the sample \<^verbatim>\<open>sample\<close>.  Their classes are declared
  outside the two source files, so the records below carry exactly the attributes the
  two scripts read.
\<close>

text \<open>\<^verbatim>\<open>sample.unmappedBam\<close> is either one path or a Python list of paths
  (\<^verbatim>\<open>type(sample.unmappedBam) == list\<close>).\<close>

datatype unmapped_bam = Path string | Paths "string list"

record sample_dirs =
  sampleRoot :: string
  dirs_unmapped :: string
  dirs_mapped :: string
  dirs_peaks :: string
  dirs_quant :: string

text \<open>The control sample is only read through \<^verbatim>\<open>sample.ctrl.filtered\<close> and
  \<^verbatim>\<open>sample.ctrl.sampleName\<close>; \<^verbatim>\<open>hasattr(sample, "ctrl")\<close> is the option being \<open>Some\<close>.\<close>

record ctrl_sample =
  ctrl_filtered :: string
  ctrl_sampleName :: string

record sample =
  name :: string
  genome :: string
  paired :: bool
  tagmented :: bool
  histone :: bool
  broad :: bool
  readLength :: int
  dirs :: sample_dirs
  unmappedBam :: unmapped_bam
  unmapped :: string
  fastq :: string
  fastq1 :: string
  fastq2 :: string
  fastqUnpaired :: string
  trimmed :: string
  trimmed1 :: string
  trimmed2 :: string
  trimmed1Unpaired :: string
  trimmed2Unpaired :: string
  trimlog :: string
  mapped :: string
  alnRates :: string
  alnMetrics :: string
  filtered :: string
  dupsMetrics :: string
  filteredshifted :: string
  bigwig :: string
  trackURL :: string
  trackColour :: string
  coverage :: string
  qc :: string
  qcPlot :: string
  ctrl :: "ctrl_sample option"
  peaks :: string
  motifsDir :: string
  peaksMotifCentered :: string
  peaksMotifAnnotated :: string
  frip :: string
  erccMapped :: string
  erccAlnRates :: string
  erccAlnMetrics :: string
  erccFiltered :: string
  erccDupsMetrics :: string
  quant :: string
  erccQuant :: string
  pseudomapped :: string
  kallistoQuant :: string

record project_dirs =
  root :: string
  html :: string
  results :: string

text \<open>\<^verbatim>\<open>prj.config\<close>: the fixed keys of the nested dictionaries are fields, the
  dictionaries indexed by a genome name are maps, so that a missing genome is a
  \<^verbatim>\<open>KeyError\<close>.\<close>

record config =
  adapters :: string
  url :: string
  peakwindowwidth :: int
  genomes :: "string \<rightharpoonup> string"
  chrsizes :: "string \<rightharpoonup> string"
  genomewindows :: "string \<rightharpoonup> string"
  tss :: "string \<rightharpoonup> string"
  transcriptomes :: "string \<rightharpoonup> string"
  kallistoindex :: "string \<rightharpoonup> string"

record project =
  prj_name :: string
  prj_dirs :: project_dirs
  prj_config :: config

record args =
  trimmer :: string
  peak_caller :: string
  cpus :: int
  quality :: int
  maxinsert :: int
  dry_run :: bool

section \<open>Effects\<close>

text \<open>
  A toolkit function \<^verbatim>\<open>tk.f(k1=v1, ...)\<close> only builds a command; the command is kept as
  the function's name with its keyword arguments in the order of the call.  The
  Quant-seq script builds its trimming command itself, as a string.
\<close>

datatype pyval = Str string | NoneV | IntV int | BoolV bool | StrList "string list"

type_synonym kwargs = "(string \<times> pyval) list"

datatype command = Tk string kwargs | Shell string

text \<open>What a run does, in order.  \<open>CallLock cmd target lock_name shell nofail\<close> is
  \<^verbatim>\<open>pipe.call_lock(cmd, target, lock_name=..., shell=..., nofail=...)\<close> and
  \<open>CleanAdd path conditional\<close> is \<^verbatim>\<open>pipe.clean_add(path, conditional=...)\<close>;
  \<open>Pypiper name outfolder args\<close> is the construction
  \<^verbatim>\<open>Pypiper(name, outfolder, args=args)\<close>, which receives the run options.  The pipeline
  manager (\<^verbatim>\<open>pypiper\<close>) is an external library: a call into it is recorded with its
  arguments, and the model follows the script along the runs in which each of these
  calls returns.  What the library does with a lock, a checkpoint or a failing command
  is not part of the two scripts.\<close>

datatype event =
    Print string
  | Pypiper string string args
  | Timestamp string
  | CallLock command "string option" "string option" bool bool
  | CleanAdd string bool
  | Makedirs string
  | LinkToTrackHub kwargs
  | StopPipeline
  | OsSystem string
  | SysExit int

datatype error = KeyError string | NotImplementedError string

text \<open>A block of the script: the events it emits, and the exception that ended it,
  if any.\<close>

type_synonym stage = "event list \<times> (error + unit)"

definition emit :: "event list \<Rightarrow> stage" where
  "emit es = (es, Inr ())"

definition raise :: "event list \<Rightarrow> error \<Rightarrow> stage" where
  "raise es e = (es, Inl e)"

text \<open>Blocks run one after the other; the first exception ends the run.\<close>

fun run :: "stage list \<Rightarrow> stage" where
  "run [] = ([], Inr ())"
| "run ((es, Inl e) # rest) = (es, Inl e)"
| "run ((es, Inr u) # rest) = (case run rest of (es', r) \<Rightarrow> (es @ es', r))"

text \<open>\<^verbatim>\<open>d[k]\<close> on a dictionary.\<close>

definition lookup :: "(string \<rightharpoonup> 'v) \<Rightarrow> string \<Rightarrow> error + 'v" where
  "lookup d k = (case d k of None \<Rightarrow> Inl (KeyError k) | Some v \<Rightarrow> Inr v)"

subsection \<open>Library functions\<close>

text \<open>\<^verbatim>\<open>os.path.join(a, *p)\<close> of \<^verbatim>\<open>posixpath\<close>.\<close>

definition join_step :: "string \<Rightarrow> string \<Rightarrow> string" where
  "join_step path b =
     (if (case b of [] \<Rightarrow> False | c # cs \<Rightarrow> c = CHR ''/'') then b
      else if path = [] \<or> last path = CHR ''/'' then path @ b
      else path @ ''/'' @ b)"

definition path_join :: "string \<Rightarrow> string list \<Rightarrow> string" where
  "path_join a p = foldl join_step a p"

text \<open>\<^verbatim>\<open>"/".join(xs)\<close>.\<close>

fun slash_join :: "string list \<Rightarrow> string" where
  "slash_join [] = []"
| "slash_join [x] = x"
| "slash_join (x # y # ys) = x @ ''/'' @ slash_join (y # ys)"

text \<open>\<^verbatim>\<open>"{0}".format(n)\<close> for an integer and for an optional string.\<close>

definition digit_char :: "nat \<Rightarrow> char" where
  "digit_char d = char_of (48 + d)"

fun str_nat :: "nat \<Rightarrow> string" where
  "str_nat n = (if n < 10 then [digit_char n] else str_nat (n div 10) @ [digit_char (n mod 10)])"

definition str_int :: "int \<Rightarrow> string" where
  "str_int i = (if i < 0 then ''-'' @ str_nat (nat (- i)) else str_nat (nat i))"

definition fmt_opt :: "string option \<Rightarrow> string" where
  "fmt_opt x = (case x of None \<Rightarrow> ''None'' | Some v \<Rightarrow> v)"

text \<open>\<^verbatim>\<open>x if sample.paired else None\<close>.\<close>

definition if_paired :: "sample \<Rightarrow> string \<Rightarrow> pyval" where
  "if_paired s x = (if paired s then Str x else NoneV)"

definition bam_val :: "unmapped_bam \<Rightarrow> pyval" where
  "bam_val b = (case b of Path x \<Rightarrow> Str x | Paths xs \<Rightarrow> StrList xs)"

section \<open>Blocks shared by both scripts\<close>

text \<open>chipseq.py 76-84 and quantseq.py 73-81: merge the replicates; the only place
  where the sample is mutated.\<close>

definition merge_bams :: "sample \<Rightarrow> event list \<times> sample" where
  "merge_bams s =
     (case unmappedBam s of
        Paths bams \<Rightarrow>
          ([Timestamp ''Merging bam files from replicates'',
            CallLock (Tk ''mergeBams'' [(''inputBams'', StrList bams), (''outputBam'', Str (unmapped s))])
              (Some (unmapped s)) None True False],
           s\<lparr>unmappedBam := Path (unmapped s)\<rparr>)
      | Path x \<Rightarrow> ([], s))"

text \<open>chipseq.py 86-93 and quantseq.py 83-90.\<close>

definition fastqc :: "sample \<Rightarrow> stage" where
  "fastqc s = emit
     [Timestamp ''Measuring sample quality with Fastqc'',
      CallLock (Tk ''fastqc''
          [(''inputBam'', bam_val (unmappedBam s)),
           (''outputDir'', Str (sampleRoot (dirs s))),
           (''sampleName'', Str (name s))])
        (Some (path_join (sampleRoot (dirs s)) [name s @ ''_fastqc.zip''])) None True False]"

text \<open>chipseq.py 95-109 and quantseq.py 92-106.\<close>

definition bam2fastq :: "sample \<Rightarrow> stage" where
  "bam2fastq s = emit
     ([Timestamp ''Converting to Fastq format'',
       CallLock (Tk ''bam2fastq''
          [(''inputBam'', bam_val (unmappedBam s)),
           (''outputFastq'', Str (if paired s then fastq1 s else fastq s)),
           (''outputFastq2'', if_paired s (fastq2 s)),
           (''unpairedFastq'', if_paired s (fastqUnpaired s))])
         (Some (if paired s then fastq1 s else fastq s)) None True False]
      @ (if \<not> paired s then [CleanAdd (fastq s) True] else [])
      @ (if paired s
         then [CleanAdd (fastq1 s) True, CleanAdd (fastq2 s) True, CleanAdd (fastqUnpaired s) True]
         else []))"

section \<open>The ChIP-seq script\<close>

text \<open>chipseq.py 111-150.\<close>

definition trim_reads :: "args \<Rightarrow> project \<Rightarrow> sample \<Rightarrow> stage" where
  "trim_reads a p s = emit
     (Timestamp ''Trimming adapters from sample'' #
      (if trimmer a = ''trimmomatic'' then
         CallLock (Tk ''trimmomatic''
            [(''inputFastq1'', Str (if paired s then fastq1 s else fastq s)),
             (''inputFastq2'', if_paired s (fastq2 s)),
             (''outputFastq1'', Str (if paired s then trimmed1 s else trimmed s)),
             (''outputFastq1unpaired'', if_paired s (trimmed1Unpaired s)),
             (''outputFastq2'', if_paired s (trimmed2 s)),
             (''outputFastq2unpaired'', if_paired s (trimmed2Unpaired s)),
             (''cpus'', IntV (cpus a)),
             (''adapters'', Str (adapters (prj_config p))),
             (''log'', Str (trimlog s))])
           (Some (if paired s then trimmed1 s else trimmed s)) None True False #
         (if \<not> paired s then [CleanAdd (trimmed s) True]
          else [CleanAdd (trimmed1 s) True, CleanAdd (trimmed1Unpaired s) True,
                CleanAdd (trimmed2 s) True, CleanAdd (trimmed2Unpaired s) True])
       else if trimmer a = ''skewer'' then
         CallLock (Tk ''skewer''
            [(''inputFastq1'', Str (if paired s then fastq1 s else fastq s)),
             (''inputFastq2'', if_paired s (fastq2 s)),
             (''outputPrefix'', Str (path_join (dirs_unmapped (dirs s)) [name s])),
             (''outputFastq1'', Str (if paired s then trimmed1 s else trimmed s)),
             (''outputFastq2'', if_paired s (trimmed2 s)),
             (''trimLog'', Str (trimlog s)),
             (''cpus'', IntV (cpus a)),
             (''adapters'', Str (adapters (prj_config p)))])
           (Some (if paired s then trimmed1 s else trimmed s)) None True False #
         (if \<not> paired s then [CleanAdd (trimmed s) True]
          else [CleanAdd (trimmed1 s) True, CleanAdd (trimmed2 s) True])
       else []))"

text \<open>chipseq.py 152-165.\<close>

definition map_reads :: "args \<Rightarrow> project \<Rightarrow> sample \<Rightarrow> stage" where
  "map_reads a p s =
     (case lookup (genomes (prj_config p)) (genome s) of
        Inl e \<Rightarrow> raise [Timestamp ''Mapping reads with Bowtie2''] e
      | Inr genomeIndex \<Rightarrow> emit
          [Timestamp ''Mapping reads with Bowtie2'',
           CallLock (Tk ''bowtie2Map''
              [(''inputFastq1'', Str (if paired s then trimmed1 s else trimmed s)),
               (''inputFastq2'', if_paired s (trimmed2 s)),
               (''outputBam'', Str (mapped s)),
               (''log'', Str (alnRates s)),
               (''metrics'', Str (alnMetrics s)),
               (''genomeIndex'', Str genomeIndex),
               (''maxInsert'', IntV (maxinsert a)),
               (''cpus'', IntV (cpus a))])
             (Some (mapped s)) None True False,
           CleanAdd (mapped s) True])"

text \<open>chipseq.py 167-177.\<close>

definition filter_reads :: "args \<Rightarrow> sample \<Rightarrow> stage" where
  "filter_reads a s = emit
     [Timestamp ''Filtering reads for quality'',
      CallLock (Tk ''filterReads''
         [(''inputBam'', Str (mapped s)),
          (''outputBam'', Str (filtered s)),
          (''metricsFile'', Str (dupsMetrics s)),
          (''paired'', BoolV (paired s)),
          (''cpus'', IntV (cpus a)),
          (''Q'', IntV (quality a))])
        (Some (filtered s)) None True False]"

text \<open>chipseq.py 179-187.\<close>

definition shift_reads :: "sample \<Rightarrow> stage" where
  "shift_reads s = emit
     (if tagmented s then
        [Timestamp ''Shifting reads of tagmented sample'',
         CallLock (Tk ''shiftReads''
            [(''inputBam'', Str (filtered s)),
             (''genome'', Str (genome s)),
             (''outputBam'', Str (filteredshifted s))])
           (Some (filteredshifted s)) None True False]
      else [])"

text \<open>chipseq.py 189-197.\<close>

definition index_bams :: "sample \<Rightarrow> stage" where
  "index_bams s = emit
     ([Timestamp ''Indexing bamfiles with samtools'',
       CallLock (Tk ''indexBam'' [(''inputBam'', Str (mapped s))])
         (Some (mapped s @ ''.bai'')) None True False,
       CallLock (Tk ''indexBam'' [(''inputBam'', Str (filtered s))])
         (Some (filtered s @ ''.bai'')) None True False]
      @ (if tagmented s then
           [CallLock (Tk ''indexBam'' [(''inputBam'', Str (filteredshifted s))])
              (Some (filteredshifted s @ ''.bai'')) None True False]
         else []))"

text \<open>chipseq.py 199-222.\<close>

definition make_tracks :: "project \<Rightarrow> sample \<Rightarrow> stage" where
  "make_tracks p s =
     (case lookup (chrsizes (prj_config p)) (genome s) of
        Inl e \<Rightarrow> raise [Timestamp ''Making bigWig tracks from bam file''] e
      | Inr genomeSizes \<Rightarrow> emit
          [Timestamp ''Making bigWig tracks from bam file'',
           CallLock (Tk ''bamToBigWig''
              [(''inputBam'', Str (filtered s)),
               (''outputBigWig'', Str (bigwig s)),
               (''genomeSizes'', Str genomeSizes),
               (''genome'', Str (genome s)),
               (''tagmented'', BoolV False),
               (''normalize'', BoolV True)])
             (Some (bigwig s)) None True False,
           CallLock (Tk ''addTrackToHub''
              [(''sampleName'', Str (name s)),
               (''trackURL'', Str (trackURL s)),
               (''trackHub'', Str (path_join (html (prj_dirs p)) [''trackHub_'' @ genome s @ ''.txt''])),
               (''colour'', Str (trackColour s))])
             None (Some (name s @ ''addToTrackHub'')) True False,
           LinkToTrackHub
              [(''trackHubURL'', Str (slash_join [url (prj_config p), prj_name p, ''trackHub_'' @ genome s @ ''.txt''])),
               (''fileName'', Str (path_join (root (prj_dirs p)) [''ucsc_tracks_'' @ genome s @ ''.html''])),
               (''genome'', Str (genome s))]])"

text \<open>chipseq.py 224-231.\<close>

definition genome_coverage :: "project \<Rightarrow> sample \<Rightarrow> stage" where
  "genome_coverage p s =
     (case lookup (genomewindows (prj_config p)) (genome s) of
        Inl e \<Rightarrow> raise [Timestamp ''Calculating genome-wide coverage''] e
      | Inr genomeWindows \<Rightarrow> emit
          [Timestamp ''Calculating genome-wide coverage'',
           CallLock (Tk ''genomeWideCoverage''
              [(''inputBam'', Str (filtered s)),
               (''genomeWindows'', Str genomeWindows),
               (''output'', Str (coverage s))])
             (Some (coverage s)) None True False])"

text \<open>chipseq.py 233-241.\<close>

definition signal_noise :: "args \<Rightarrow> sample \<Rightarrow> stage" where
  "signal_noise a s = emit
     [Timestamp ''Assessing signal/noise in sample'',
      CallLock (Tk ''peakTools''
         [(''inputBam'', Str (filtered s)),
          (''output'', Str (qc s)),
          (''plot'', Str (qcPlot s)),
          (''cpus'', IntV (cpus a))])
        (Some (qcPlot s)) None True True]"

text \<open>chipseq.py 248-305; \<open>exists\<close> is \<^verbatim>\<open>os.path.exists\<close> on the file system of the
  run.\<close>

definition call_peaks :: "args \<Rightarrow> (string \<Rightarrow> bool) \<Rightarrow> sample \<Rightarrow> ctrl_sample \<Rightarrow> stage" where
  "call_peaks a exists s c =
     (if peak_caller a = ''macs2'' then emit
        ([Timestamp ''Calling peaks with MACS2'']
         @ (if \<not> exists (dirs_peaks (dirs s)) then [Makedirs (dirs_peaks (dirs s))] else [])
         @ [CallLock (Tk ''macs2CallPeaks''
               [(''treatmentBam'', Str (filtered s)),
                (''controlBam'', Str (ctrl_filtered c)),
                (''outputDir'', Str (dirs_peaks (dirs s))),
                (''sampleName'', Str (name s)),
                (''genome'', Str (genome s)),
                (''broad'', BoolV (if broad s then True else False))])
              (Some (peaks s)) None True False,
            Timestamp ''Ploting MACS2 model'',
            CallLock (Tk ''macs2PlotModel''
               [(''sampleName'', Str (name s)),
                (''outputDir'', Str (path_join (dirs_peaks (dirs s)) [name s]))])
              (Some (path_join (dirs_peaks (dirs s)) [name s, name s @ ''_model.pdf''])) None True False])
      else if peak_caller a = ''spp'' then emit
        [Timestamp ''Calling peaks with spp'',
         CallLock (Tk ''sppCallPeaks''
            [(''treatmentBam'', Str (filtered s)),
             (''controlBam'', Str (ctrl_filtered c)),
             (''treatmentName'', Str (name s)),
             (''controlName'', Str (ctrl_sampleName c)),
             (''outputDir'', Str (path_join (dirs_peaks (dirs s)) [name s])),
             (''broad'', BoolV (if broad s then True else False)),
             (''cpus'', IntV (cpus a))])
           (Some (peaks s)) None True False]
      else if peak_caller a = ''zinba'' then
        raise [] (NotImplementedError ''Calling peaks with Zinba is not yet implemented.'')
      else emit [])"

text \<open>chipseq.py 307-340.\<close>

definition find_motifs :: "sample \<Rightarrow> stage" where
  "find_motifs s = emit
     (Timestamp ''Finding motifs'' #
      (if \<not> histone s then
         [CallLock (Tk ''homerFindMotifs''
             [(''peakFile'', Str (peaks s)),
              (''genome'', Str (genome s)),
              (''outputDir'', Str (motifsDir s)),
              (''size'', Str ''50''),
              (''length'', Str ''8,10,12,14,16''),
              (''n_motifs'', IntV 8)])
            (Some (path_join (motifsDir s) [''homerResults'', ''motif1.motif''])) None True False,
          CallLock (Tk ''homerFindMotifs''
             [(''peakFile'', Str (peaks s)),
              (''genome'', Str (genome s)),
              (''outputDir'', Str (motifsDir s @ ''_cobinders'')),
              (''size'', Str ''200''),
              (''length'', Str ''8,10,12,14,16''),
              (''n_motifs'', IntV 12)])
            (Some (path_join (motifsDir s @ ''_cobinders'') [''homerResults'', ''motif1.motif''])) None True False]
       else
         [CallLock (Tk ''homerFindMotifs''
             [(''peakFile'', Str (peaks s)),
              (''genome'', Str (genome s)),
              (''outputDir'', Str (motifsDir s)),
              (''size'', Str ''1000''),
              (''length'', Str ''8,10,12,14,16''),
              (''n_motifs'', IntV 20)])
            (Some (path_join (motifsDir s) [''homerResults'', ''motif1.motif''])) None True False]))"

text \<open>chipseq.py 342-355.\<close>

definition center_peaks :: "project \<Rightarrow> sample \<Rightarrow> stage" where
  "center_peaks p s = emit
     [Timestamp ''Centering peak in motifs'',
      CallLock (Tk ''centerPeaksOnMotifs''
         [(''peakFile'', Str (peaks s)),
          (''genome'', Str (genome s)),
          (''windowWidth'', IntV (peakwindowwidth (prj_config p))),
          (''motifFile'', Str (path_join (motifsDir s) [''homerResults'', ''motif1.motif''])),
          (''outputBed'', Str (peaksMotifCentered s))])
        (Some (peaksMotifCentered s)) None True False]"

text \<open>chipseq.py 357-369.\<close>

definition annotate_peaks :: "sample \<Rightarrow> stage" where
  "annotate_peaks s = emit
     [Timestamp ''Annotating peaks with motif info'',
      CallLock (Tk ''AnnotatePeaks''
         [(''peakFile'', Str (peaks s)),
          (''genome'', Str (genome s)),
          (''motifFile'', Str (path_join (motifsDir s) [''homerResults'', ''motif1.motif''])),
          (''outputBed'', Str (peaksMotifAnnotated s))])
        (Some (peaksMotifAnnotated s)) None True False]"

text \<open>chipseq.py 371-384.\<close>

definition plot_peak_enrichment :: "project \<Rightarrow> sample \<Rightarrow> stage" where
  "plot_peak_enrichment p s = emit
     [Timestamp ''Ploting enrichment at peaks centered on motifs'',
      CallLock (Tk ''peakAnalysis''
         [(''inputBam'', Str (filtered s)),
          (''peakFile'', Str (peaksMotifCentered s)),
          (''plotsDir'', Str (path_join (results (prj_dirs p)) [''plots''])),
          (''windowWidth'', IntV (peakwindowwidth (prj_config p))),
          (''fragmentsize'', IntV (if tagmented s then 1 else readLength s)),
          (''genome'', Str (genome s)),
          (''n_clusters'', IntV 5),
          (''strand_specific'', BoolV True),
          (''duplicates'', BoolV True)])
        None None True True]"

text \<open>chipseq.py 386-399.\<close>

definition plot_tss_enrichment :: "project \<Rightarrow> sample \<Rightarrow> stage" where
  "plot_tss_enrichment p s =
     (case lookup (tss (prj_config p)) (genome s) of
        Inl e \<Rightarrow> raise [Timestamp ''Ploting enrichment around TSSs''] e
      | Inr tssFile \<Rightarrow> emit
          [Timestamp ''Ploting enrichment around TSSs'',
           CallLock (Tk ''tssAnalysis''
              [(''inputBam'', Str (filtered s)),
               (''tssFile'', Str tssFile),
               (''plotsDir'', Str (path_join (results (prj_dirs p)) [''plots''])),
               (''windowWidth'', IntV (peakwindowwidth (prj_config p))),
               (''fragmentsize'', IntV (if tagmented s then 1 else readLength s)),
               (''genome'', Str (genome s)),
               (''n_clusters'', IntV 5),
               (''strand_specific'', BoolV True),
               (''duplicates'', BoolV True)])
             None None True True])"

text \<open>chipseq.py 401-411.\<close>

definition calculate_frip :: "sample \<Rightarrow> stage" where
  "calculate_frip s = emit
     [Timestamp ''Calculating fraction of reads in peaks (FRiP)'',
      CallLock (Tk ''calculateFRiP''
         [(''inputBam'', Str (filtered s)),
          (''inputBed'', Str (peaks s)),
          (''output'', Str (frip s))])
        (Some (frip s)) None True False]"

definition finish :: "sample \<Rightarrow> stage" where
  "finish s = emit [StopPipeline, Print (''Finished processing sample '' @ name s @ ''.'')]"

text \<open>chipseq.py 86-241: everything between the merge and the test for a control.\<close>

definition chipseq_upto_qc :: "args \<Rightarrow> project \<Rightarrow> sample \<Rightarrow> stage list" where
  "chipseq_upto_qc a p s =
     [fastqc s, bam2fastq s, trim_reads a p s, map_reads a p s, filter_reads a s,
      shift_reads s, index_bams s, make_tracks p s, genome_coverage p s, signal_noise a s]"

text \<open>chipseq.py 248-411: the blocks run for a sample with control \<open>c\<close>.\<close>

definition chipseq_peak_stages ::
  "args \<Rightarrow> project \<Rightarrow> (string \<Rightarrow> bool) \<Rightarrow> sample \<Rightarrow> ctrl_sample \<Rightarrow> stage list" where
  "chipseq_peak_stages a p exists s c =
     [call_peaks a exists s c, find_motifs s, center_peaks p s, annotate_peaks s,
      plot_peak_enrichment p s, plot_tss_enrichment p s, calculate_frip s, finish s]"

text \<open>chipseq.py 243-411: the early return, or the peak-calling half.\<close>

definition chipseq_after_qc :: "args \<Rightarrow> project \<Rightarrow> (string \<Rightarrow> bool) \<Rightarrow> sample \<Rightarrow> stage" where
  "chipseq_after_qc a p exists s =
     (case ctrl s of
        None \<Rightarrow> emit [Print (''Finished processing sample '' @ name s @ ''.'')]
      | Some c \<Rightarrow> run (chipseq_peak_stages a p exists s c))"

text \<open>chipseq.py 65-411, \<^verbatim>\<open>process(args, prj, sample)\<close>: the events of the run, the sample
  as the run leaves it, and how the run ended.\<close>

definition chipseq_process ::
  "args \<Rightarrow> project \<Rightarrow> (string \<Rightarrow> bool) \<Rightarrow> sample \<Rightarrow> event list \<times> sample \<times> (error + unit)" where
  "chipseq_process a p exists s0 =
     (case merge_bams s0 of (es0, s) \<Rightarrow>
        (case run (chipseq_upto_qc a p s @ [chipseq_after_qc a p exists s]) of (es, r) \<Rightarrow>
           ([Print (''Start processing ChIP-seq sample '' @ name s0 @ ''.''),
             Pypiper ''pipe'' (sampleRoot (dirs s0)) a] @ es0 @ es, s, r)))"

text \<open>chipseq.py 25-49, \<^verbatim>\<open>main()\<close>, from the point where the pickle at
  \<open>samplePickle\<close> has been loaded as \<open>(prj, sample, args)\<close>.\<close>

definition chipseq_main ::
  "string \<Rightarrow> project \<times> sample \<times> args \<Rightarrow> (string \<Rightarrow> bool) \<Rightarrow> event list \<times> (error + unit)" where
  "chipseq_main samplePickle pickled exists =
     (case pickled of (p, s, a) \<Rightarrow>
        (case chipseq_process a p exists s of
           (es, s', Inl e) \<Rightarrow> (es, Inl e)
         | (es, s', Inr u) \<Rightarrow>
             (es @ (if \<not> dry_run a then [OsSystem (''rm '' @ samplePickle)] else [])
                 @ [Print ''Finished and exiting.'', SysExit 0], Inr ())))"

section \<open>The Quant-seq script\<close>

text \<open>quantseq.py 229-249, \<^verbatim>\<open>trimmomatic(...)\<close>: the command line, built as a string.\<close>

definition trimmomatic ::
  "string \<Rightarrow> string \<Rightarrow> int \<Rightarrow> string \<Rightarrow> string \<Rightarrow>
   string option \<Rightarrow> string option \<Rightarrow> string option \<Rightarrow> string option \<Rightarrow> string" where
  "trimmomatic inputFastq1 outputFastq1 cpus' adapters' log inputFastq2 outputFastq1unpaired
       outputFastq2 outputFastq2unpaired =
     (let PE = (if inputFastq2 = None then False else True);
          pe = (if PE then ''PE'' else ''SE'');
          cmd = ''java -Xmx4g -jar `which trimmomatic-0.32.jar`'';
          cmd = cmd @ '' '' @ pe @ '' -threads '' @ str_int cpus' @ '' -trimlog '' @ log
                    @ '' '' @ inputFastq1;
          cmd = (if PE then cmd @ '' '' @ fmt_opt inputFastq2 else cmd);
          cmd = cmd @ '' '' @ outputFastq1;
          cmd = (if PE then cmd @ '' '' @ fmt_opt outputFastq1unpaired @ '' '' @ fmt_opt outputFastq2
                               @ '' '' @ fmt_opt outputFastq2unpaired
                 else cmd);
          cmd = cmd @ '' ILLUMINACLIP:'' @ adapters' @ '':1:40:15:8:true'';
          cmd = cmd @ '' HEADCROP:12'';
          cmd = cmd @ '' TRAILING:3'';
          cmd = cmd @ '' SLIDINGWINDOW:4:10'';
          cmd = cmd @ '' MINLEN:36''
      in cmd)"

text \<open>\<^verbatim>\<open>x if sample.paired else None\<close> for an argument of the script's own function.\<close>

definition opt_paired :: "sample \<Rightarrow> string \<Rightarrow> string option" where
  "opt_paired s x = (if paired s then Some x else None)"

text \<open>quantseq.py 108-129.\<close>

definition q_trim_reads :: "args \<Rightarrow> project \<Rightarrow> sample \<Rightarrow> stage" where
  "q_trim_reads a p s = emit
     ([Timestamp ''Trimming adapters from sample'',
       CallLock (Shell (trimmomatic
            (if paired s then fastq1 s else fastq s)
            (if paired s then trimmed1 s else trimmed s)
            (cpus a)
            (adapters (prj_config p))
            (trimlog s)
            (opt_paired s (fastq2 s))
            (opt_paired s (trimmed1Unpaired s))
            (opt_paired s (trimmed2 s))
            (opt_paired s (trimmed2Unpaired s))))
         (Some (if paired s then trimmed1 s else trimmed s)) None True False]
      @ (if \<not> paired s then [CleanAdd (trimmed s) True]
         else [CleanAdd (trimmed1 s) True, CleanAdd (trimmed1Unpaired s) True,
               CleanAdd (trimmed2 s) True, CleanAdd (trimmed2Unpaired s) True]))"

text \<open>quantseq.py 131-141.\<close>

definition q_map_tophat :: "args \<Rightarrow> project \<Rightarrow> sample \<Rightarrow> stage" where
  "q_map_tophat a p s =
     (case lookup (genomes (prj_config p)) (genome s) of
        Inl e \<Rightarrow> raise [Timestamp ''Mapping sample with Tophat''] e
      | Inr g \<Rightarrow>
          (case lookup (transcriptomes (prj_config p)) (genome s) of
             Inl e \<Rightarrow> raise [Timestamp ''Mapping sample with Tophat''] e
           | Inr t \<Rightarrow> emit
               [Timestamp ''Mapping sample with Tophat'',
                CallLock (Tk ''topHatMap''
                   [(''inputFastq'', Str (if paired s then trimmed1 s else trimmed s)),
                    (''outDir'', Str (dirs_mapped (dirs s))),
                    (''genome'', Str g),
                    (''transcriptome'', Str t),
                    (''cpus'', IntV (cpus a))])
                  (Some (mapped s)) None True False,
                CleanAdd (mapped s) True]))"

text \<open>quantseq.py 143-155.\<close>

definition q_map_ercc :: "args \<Rightarrow> project \<Rightarrow> sample \<Rightarrow> stage" where
  "q_map_ercc a p s =
     (case lookup (genomes (prj_config p)) ''ercc'' of
        Inl e \<Rightarrow> raise [Timestamp ''Mapping erccs with Bowtie2''] e
      | Inr genomeIndex \<Rightarrow> emit
          [Timestamp ''Mapping erccs with Bowtie2'',
           CallLock (Tk ''bowtie2Map''
              [(''inputFastq1'', Str (if paired s then trimmed1 s else trimmed s)),
               (''inputFastq2'', if_paired s (trimmed1 s)),
               (''outputBam'', Str (erccMapped s)),
               (''log'', Str (erccAlnRates s)),
               (''metrics'', Str (erccAlnMetrics s)),
               (''genomeIndex'', Str genomeIndex),
               (''maxInsert'', IntV (maxinsert a)),
               (''cpus'', IntV (cpus a))])
             (Some (erccMapped s)) None True False,
           CleanAdd (erccMapped s) True])"

text \<open>quantseq.py 157-178.\<close>

definition q_filter_reads :: "args \<Rightarrow> sample \<Rightarrow> stage" where
  "q_filter_reads a s = emit
     [Timestamp ''Filtering reads'',
      CallLock (Tk ''filterReads''
         [(''inputBam'', Str (mapped s)),
          (''outputBam'', Str (filtered s)),
          (''metricsFile'', Str (dupsMetrics s)),
          (''paired'', BoolV (paired s)),
          (''cpus'', IntV (cpus a)),
          (''Q'', IntV (quality a))])
        (Some (filtered s)) None True False,
      Timestamp ''Filtering ERCC reads'',
      CallLock (Tk ''filterReads''
         [(''inputBam'', Str (erccMapped s)),
          (''outputBam'', Str (erccFiltered s)),
          (''metricsFile'', Str (erccDupsMetrics s)),
          (''paired'', BoolV (paired s)),
          (''cpus'', IntV (cpus a)),
          (''Q'', IntV (quality a))])
        (Some (erccFiltered s)) None True False]"

text \<open>quantseq.py 180-193.\<close>

definition q_sort_index :: "sample \<Rightarrow> stage" where
  "q_sort_index s = emit
     [Timestamp ''Sorting and indexing reads'',
      CallLock (Tk ''sortIndexBam''
         [(''inputBam'', Str (filtered s)), (''outputBam'', Str (filtered s))])
        None (Some ''sample.filtered'') True False,
      Timestamp ''Sorting and indexing ERCC reads'',
      CallLock (Tk ''sortIndexBam''
         [(''inputBam'', Str (erccFiltered s)), (''outputBam'', Str (erccFiltered s))])
        None (Some ''sample.erccFiltered'') True False]"

text \<open>quantseq.py 195-203.\<close>

definition q_quantify :: "project \<Rightarrow> sample \<Rightarrow> stage" where
  "q_quantify p s =
     (case lookup (transcriptomes (prj_config p)) (genome s) of
        Inl e \<Rightarrow> raise [Timestamp ''Quantify sample transcripts with htseq-count''] e
      | Inr gtf \<Rightarrow> emit
          [Timestamp ''Quantify sample transcripts with htseq-count'',
           CallLock (Tk ''htSeqCount''
              [(''inputBam'', Str (filtered s)),
               (''gtf'', Str gtf),
               (''output'', Str (quant s))])
             (Some (quant s)) None True False])"

text \<open>quantseq.py 205-211.\<close>

definition q_quantify_ercc :: "project \<Rightarrow> sample \<Rightarrow> stage" where
  "q_quantify_ercc p s =
     (case lookup (transcriptomes (prj_config p)) ''ercc'' of
        Inl e \<Rightarrow> raise [Timestamp ''Quantify ERCC transcripts with htseq-count''] e
      | Inr gtf \<Rightarrow> emit
          [Timestamp ''Quantify ERCC transcripts with htseq-count'',
           CallLock (Tk ''htSeqCount''
              [(''inputBam'', Str (erccFiltered s)),
               (''gtf'', Str gtf),
               (''output'', Str (erccQuant s))])
             (Some (erccQuant s)) None True True])"

text \<open>quantseq.py 213-223.\<close>

definition q_kallisto :: "args \<Rightarrow> project \<Rightarrow> sample \<Rightarrow> stage" where
  "q_kallisto a p s =
     (case lookup (kallistoindex (prj_config p)) (genome s) of
        Inl e \<Rightarrow> raise [Timestamp ''Quantifying read counts with kallisto''] e
      | Inr idx \<Rightarrow> emit
          [Timestamp ''Quantifying read counts with kallisto'',
           CallLock (Tk ''kallisto''
              [(''inputFastq'', Str (if paired s then trimmed1 s else trimmed s)),
               (''inputFastq2'', if_paired s (trimmed2 s)),
               (''outputDir'', Str (dirs_quant (dirs s))),
               (''outputBam'', Str (pseudomapped s)),
               (''transcriptomeIndex'', Str idx),
               (''cpus'', IntV (cpus a))])
             (Some (kallistoQuant s)) None True True])"

text \<open>quantseq.py 83-226: the blocks after the merge.\<close>

definition quantseq_stages :: "args \<Rightarrow> project \<Rightarrow> sample \<Rightarrow> stage list" where
  "quantseq_stages a p s =
     [fastqc s, bam2fastq s, q_trim_reads a p s, q_map_tophat a p s, q_map_ercc a p s,
      q_filter_reads a s, q_sort_index s, q_quantify p s, q_quantify_ercc p s,
      q_kallisto a p s, finish s]"

text \<open>quantseq.py 62-226, \<^verbatim>\<open>process(args, prj, sample)\<close>.\<close>

definition quantseq_process ::
  "args \<Rightarrow> project \<Rightarrow> sample \<Rightarrow> event list \<times> sample \<times> (error + unit)" where
  "quantseq_process a p s0 =
     (case merge_bams s0 of (es0, s) \<Rightarrow>
        (case run (quantseq_stages a p s) of (es, r) \<Rightarrow>
           ([Print (''Start processing Quant-seq sample '' @ name s0 @ ''.''),
             Pypiper ''pipe'' (sampleRoot (dirs s0)) a] @ es0 @ es, s, r)))"

text \<open>quantseq.py 25-46, \<^verbatim>\<open>main()\<close>, from the loaded pickle on.\<close>

definition quantseq_main ::
  "string \<Rightarrow> project \<times> sample \<times> args \<Rightarrow> event list \<times> (error + unit)" where
  "quantseq_main samplePickle pickled =
     (case pickled of (p, s, a) \<Rightarrow>
        (case quantseq_process a p s of
           (es, s', Inl e) \<Rightarrow> (es, Inl e)
         | (es, s', Inr u) \<Rightarrow>
             (es @ (if \<not> dry_run a then [OsSystem (''rm '' @ samplePickle)] else [])
                 @ [Print ''Finished and exiting.'', SysExit 0], Inr ())))"

section \<open>Observations on a run\<close>

text \<open>The toolkit function behind a \<^verbatim>\<open>call_lock\<close>, its keyword arguments, and the
  options of the \<^verbatim>\<open>call_lock\<close> itself.\<close>

fun call_name :: "event \<Rightarrow> string option" where
  "call_name (CallLock (Tk n kw) t l sh nf) = Some n"
| "call_name e = None"

fun kwarg :: "string \<Rightarrow> event \<Rightarrow> pyval option" where
  "kwarg k (CallLock (Tk n kw) t l sh nf) = map_of kw k"
| "kwarg k e = None"

fun is_call :: "event \<Rightarrow> bool" where
  "is_call (CallLock c t l sh nf) = True"
| "is_call e = False"

fun is_nofail :: "event \<Rightarrow> bool" where
  "is_nofail (CallLock c t l sh nf) = nf"
| "is_nofail e = False"

fun target_of :: "event \<Rightarrow> string option" where
  "target_of (CallLock c t l sh nf) = t"
| "target_of e = None"

fun lock_name_of :: "event \<Rightarrow> string option" where
  "lock_name_of (CallLock c t l sh nf) = l"
| "lock_name_of e = None"

definition calls_of :: "string \<Rightarrow> event list \<Rightarrow> event list" where
  "calls_of tool es = filter (\<lambda>e. call_name e = Some tool) es"

text \<open>The command strings the script built itself.\<close>

fun shell_cmd :: "event \<Rightarrow> string list" where
  "shell_cmd (CallLock (Shell c) t l sh nf) = [c]"
| "shell_cmd e = []"

definition shell_cmds :: "event list \<Rightarrow> string list" where
  "shell_cmds es = concat (map shell_cmd es)"

text \<open>The paths registered by \<^verbatim>\<open>pipe.clean_add(path, conditional=True)\<close>.\<close>

fun cleanup_path :: "event \<Rightarrow> string list" where
  "cleanup_path (CleanAdd x c) = (if c then [x] else [])"
| "cleanup_path e = []"

definition cleanups :: "event list \<Rightarrow> string list" where
  "cleanups es = concat (map cleanup_path es)"

text \<open>The stages after the test for a control sample: peak calling (with the directory
  it creates), motif discovery, motif centering and annotation, the enrichment plots,
  FRiP, and the closing \<^verbatim>\<open>stop_pipeline\<close>.\<close>

definition downstream_tools :: "string list" where
  "downstream_tools =
     [''macs2CallPeaks'', ''macs2PlotModel'', ''sppCallPeaks'', ''zinbaCallPeaks'', ''bamToBed'',
      ''homerFindMotifs'', ''centerPeaksOnMotifs'', ''AnnotatePeaks'',
      ''peakAnalysis'', ''tssAnalysis'', ''calculateFRiP'']"

fun is_downstream :: "event \<Rightarrow> bool" where
  "is_downstream (CallLock (Tk n kw) t l sh nf) = (n \<in> set downstream_tools)"
| "is_downstream (Makedirs d) = True"
| "is_downstream e = False"

text \<open>The keyword arguments of a trimming call that name a trimmed output file.\<close>

fun output_args :: "event \<Rightarrow> (string \<times> string) list" where
  "output_args (CallLock (Tk n kw) t l sh nf) =
     concat (map (\<lambda>(k, v). case v of Str x \<Rightarrow> (if prefix ''outputFastq'' k then [(k, x)] else [])
                                    | _ \<Rightarrow> []) kw)"
| "output_args e = []"

definition trimmed_outputs :: "event list \<Rightarrow> (string \<times> string) list" where
  "trimmed_outputs es =
     concat (map output_args (filter (\<lambda>e. call_name e \<in> {Some ''trimmomatic'', Some ''skewer''}) es))"

text \<open>\<^verbatim>\<open>int(x)\<close> for a string of decimal digits, as the motif finder reads its
  \<^verbatim>\<open>size\<close> argument.\<close>

definition digit_val :: "char \<Rightarrow> nat option" where
  "digit_val c =
     (let n = (of_char c :: nat) in if 48 \<le> n \<and> n \<le> 57 then Some (n - 48) else None)"

fun parse_digits :: "nat \<Rightarrow> string \<Rightarrow> nat option" where
  "parse_digits acc [] = Some acc"
| "parse_digits acc (c # cs) =
     (case digit_val c of None \<Rightarrow> None | Some d \<Rightarrow> parse_digits (10 * acc + d) cs)"

definition parse_nat :: "string \<Rightarrow> nat option" where
  "parse_nat x = (if x = [] then None else parse_digits 0 x)"

definition window_size :: "event \<Rightarrow> nat option" where
  "window_size e = (case kwarg ''size'' e of Some (Str x) \<Rightarrow> parse_nat x | _ \<Rightarrow> None)"

definition motif_count :: "event \<Rightarrow> int option" where
  "motif_count e = (case kwarg ''n_motifs'' e of Some (IntV n) \<Rightarrow> Some n | _ \<Rightarrow> None)"

definition wider_window :: "event \<Rightarrow> event \<Rightarrow> bool" where
  "wider_window e1 e2 =
     (case (window_size e1, window_size e2) of (Some w1, Some w2) \<Rightarrow> w1 < w2 | _ \<Rightarrow> False)"

definition more_motifs :: "event \<Rightarrow> event \<Rightarrow> bool" where
  "more_motifs e1 e2 =
     (case (motif_count e1, motif_count e2) of (Some n1, Some n2) \<Rightarrow> n1 < n2 | _ \<Rightarrow> False)"

text \<open>The appends to a track hub: the hub file, and the target and lock name of the
  \<^verbatim>\<open>call_lock\<close> that runs the append.\<close>

definition hub_appends :: "event list \<Rightarrow> (pyval option \<times> string option \<times> string option) list" where
  "hub_appends es =
     map (\<lambda>e. (kwarg ''trackHub'' e, target_of e, lock_name_of e)) (calls_of ''addTrackToHub'' es)"

section \<open>Example inputs\<close>

definition ex_dirs :: sample_dirs where
  "ex_dirs = \<lparr>sampleRoot = ''/prj/s1'', dirs_unmapped = ''/prj/s1/unmapped'',
              dirs_mapped = ''/prj/s1/mapped'', dirs_peaks = ''/prj/s1/peaks'',
              dirs_quant = ''/prj/s1/quant''\<rparr>"

text \<open>A paired-end transcription-factor sample with two replicates and no control.\<close>

definition ex_sample :: sample where
  "ex_sample = \<lparr>name = ''s1'', genome = ''hg19'', paired = True, tagmented = False,
     histone = False, broad = False, readLength = 50, dirs = ex_dirs,
     unmappedBam = Paths [''/raw/s1_a.bam'', ''/raw/s1_b.bam''],
     unmapped = ''/prj/s1/unmapped/s1.bam'',
     fastq = ''/prj/s1/unmapped/s1.fastq'',
     fastq1 = ''/prj/s1/unmapped/s1.1.fastq'',
     fastq2 = ''/prj/s1/unmapped/s1.2.fastq'',
     fastqUnpaired = ''/prj/s1/unmapped/s1.unpaired.fastq'',
     trimmed = ''/prj/s1/unmapped/s1.trimmed.fastq'',
     trimmed1 = ''/prj/s1/unmapped/s1.1.trimmed.fastq'',
     trimmed2 = ''/prj/s1/unmapped/s1.2.trimmed.fastq'',
     trimmed1Unpaired = ''/prj/s1/unmapped/s1.1_unpaired.trimmed.fastq'',
     trimmed2Unpaired = ''/prj/s1/unmapped/s1.2_unpaired.trimmed.fastq'',
     trimlog = ''/prj/s1/unmapped/s1.trimlog.txt'',
     mapped = ''/prj/s1/mapped/s1.bam'',
     alnRates = ''/prj/s1/s1.alnRates.txt'',
     alnMetrics = ''/prj/s1/s1.alnMetrics.txt'',
     filtered = ''/prj/s1/mapped/s1.filtered.bam'',
     dupsMetrics = ''/prj/s1/s1.dups.txt'',
     filteredshifted = ''/prj/s1/mapped/s1.filteredshifted.bam'',
     bigwig = ''/prj/html/s1.bigWig'',
     trackURL = ''http://host/prj/s1.bigWig'',
     trackColour = ''0,0,0'',
     coverage = ''/prj/s1/coverage/s1.cov'',
     qc = ''/prj/s1/s1_qc.tsv'',
     qcPlot = ''/prj/s1/s1_qc.pdf'',
     ctrl = None,
     peaks = ''/prj/s1/peaks/s1_peaks.narrowPeak'',
     motifsDir = ''/prj/s1/motifs'',
     peaksMotifCentered = ''/prj/s1/peaks/s1.motifCentered.bed'',
     peaksMotifAnnotated = ''/prj/s1/peaks/s1.motifAnnotated.bed'',
     frip = ''/prj/s1/s1_FRiP.txt'',
     erccMapped = ''/prj/s1/mapped/s1_ercc.bam'',
     erccAlnRates = ''/prj/s1/s1_ercc.alnRates.txt'',
     erccAlnMetrics = ''/prj/s1/s1_ercc.alnMetrics.txt'',
     erccFiltered = ''/prj/s1/mapped/s1_ercc.filtered.bam'',
     erccDupsMetrics = ''/prj/s1/s1_ercc.dups.txt'',
     quant = ''/prj/s1/quant/s1.tsv'',
     erccQuant = ''/prj/s1/quant/s1_ercc.tsv'',
     pseudomapped = ''/prj/s1/quant/s1.pseudo.bam'',
     kallistoQuant = ''/prj/s1/quant/abundance.tsv''\<rparr>"

definition ex_ctrl :: ctrl_sample where
  "ex_ctrl = \<lparr>ctrl_filtered = ''/prj/input/mapped/input.filtered.bam'', ctrl_sampleName = ''input''\<rparr>"

text \<open>The same sample with a control, and a second sample of the same genome.\<close>

definition ex_sample_ctrl :: sample where
  "ex_sample_ctrl = ex_sample\<lparr>ctrl := Some ex_ctrl\<rparr>"

definition ex_sample2 :: sample where
  "ex_sample2 = ex_sample\<lparr>name := ''s2''\<rparr>"

definition ex_genome_map :: "string \<Rightarrow> string \<rightharpoonup> string" where
  "ex_genome_map kind = (\<lambda>g. if g = ''hg19'' \<or> g = ''ercc'' then Some (''/ref/'' @ g @ ''/'' @ kind) else None)"

definition ex_project :: project where
  "ex_project = \<lparr>prj_name = ''prj'',
     prj_dirs = \<lparr>root = ''/prj'', html = ''/prj/html'', results = ''/prj/results''\<rparr>,
     prj_config = \<lparr>adapters = ''/ref/adapters.fa'', url = ''http://host'', peakwindowwidth = 2000,
       genomes = ex_genome_map ''index'', chrsizes = ex_genome_map ''chrsizes'',
       genomewindows = ex_genome_map ''windows'', tss = ex_genome_map ''tss'',
       transcriptomes = ex_genome_map ''gtf'', kallistoindex = ex_genome_map ''kallisto''\<rparr>\<rparr>"

definition ex_args :: args where
  "ex_args = \<lparr>trimmer = ''skewer'', peak_caller = ''macs2'', cpus = 4, quality = 30,
              maxinsert = 2000, dry_run = False\<rparr>"

definition ex_exists :: "string \<Rightarrow> bool" where
  "ex_exists x = False"


text \<open>The single-end variant of the example sample, with one unmapped file; a dry run;
  and a file system on which every path exists, as after an earlier run.\<close>

definition ex_sample_single :: sample where
  "ex_sample_single = ex_sample\<lparr>paired := False, unmappedBam := Path ''/raw/s1.bam''\<rparr>"

definition ex_args_dry :: args where
  "ex_args_dry = ex_args\<lparr>dry_run := True\<rparr>"

definition ex_exists_all :: "string \<Rightarrow> bool" where
  "ex_exists_all x = True"

section \<open>Runs\<close>

abbreviation chipseq_trace :: "args \<Rightarrow> project \<Rightarrow> (string \<Rightarrow> bool) \<Rightarrow> sample \<Rightarrow> event list" where
  "chipseq_trace a p exists s \<equiv> fst (chipseq_process a p exists s)"

abbreviation chipseq_sample_after :: "args \<Rightarrow> project \<Rightarrow> (string \<Rightarrow> bool) \<Rightarrow> sample \<Rightarrow> sample" where
  "chipseq_sample_after a p exists s \<equiv> fst (snd (chipseq_process a p exists s))"

abbreviation chipseq_outcome :: "args \<Rightarrow> project \<Rightarrow> (string \<Rightarrow> bool) \<Rightarrow> sample \<Rightarrow> error + unit" where
  "chipseq_outcome a p exists s \<equiv> snd (snd (chipseq_process a p exists s))"

abbreviation quantseq_trace :: "args \<Rightarrow> project \<Rightarrow> sample \<Rightarrow> event list" where
  "quantseq_trace a p s \<equiv> fst (quantseq_process a p s)"

abbreviation quantseq_sample_after :: "args \<Rightarrow> project \<Rightarrow> sample \<Rightarrow> sample" where
  "quantseq_sample_after a p s \<equiv> fst (snd (quantseq_process a p s))"

abbreviation quantseq_outcome :: "args \<Rightarrow> project \<Rightarrow> sample \<Rightarrow> error + unit" where
  "quantseq_outcome a p s \<equiv> snd (snd (quantseq_process a p s))"

text \<open>The genome of the sample has an entry in each table the ChIP-seq script reads
  before the test for a control sample.\<close>

definition genome_configured :: "project \<Rightarrow> sample \<Rightarrow> bool" where
  "genome_configured p s =
     (genomes (prj_config p) (genome s) \<noteq> None \<and>
      chrsizes (prj_config p) (genome s) \<noteq> None \<and>
      genomewindows (prj_config p) (genome s) \<noteq> None)"

text \<open>The \<^verbatim>\<open>call_lock\<close> of the signal/noise stage (chipseq.py 235-241).\<close>

definition qc_call :: "args \<Rightarrow> sample \<Rightarrow> event" where
  "qc_call a s =
     CallLock (Tk ''peakTools''
        [(''inputBam'', Str (filtered s)), (''output'', Str (qc s)),
         (''plot'', Str (qcPlot s)), (''cpus'', IntV (cpus a))])
       (Some (qcPlot s)) None True True"


text \<open>An event agrees with the nofail policy of the ChIP-seq script when it is a
  failure-tolerant call exactly if it calls the signal/noise tool or one of the two
  enrichment plots.\<close>

definition chipseq_nofail_ok :: "event \<Rightarrow> bool" where
  "chipseq_nofail_ok e =
     (is_nofail e = (call_name e \<in> {Some ''peakTools'', Some ''peakAnalysis'', Some ''tssAnalysis''}))"

text \<open>In the Quant-seq script a failure-tolerant call is a count-based or a
  pseudo-alignment quantification.\<close>

definition quantseq_nofail_ok :: "event \<Rightarrow> bool" where
  "quantseq_nofail_ok e =
     (if is_nofail e then call_name e \<in> {Some ''htSeqCount'', Some ''kallisto''} else True)"

text \<open>The tables the Quant-seq script reads have the entries it looks up.\<close>

definition quant_configured :: "project \<Rightarrow> sample \<Rightarrow> bool" where
  "quant_configured p s =
     (genomes (prj_config p) (genome s) \<noteq> None \<and>
      transcriptomes (prj_config p) (genome s) \<noteq> None \<and>
      genomes (prj_config p) ''ercc'' \<noteq> None \<and>
      transcriptomes (prj_config p) ''ercc'' \<noteq> None \<and>
      kallistoindex (prj_config p) (genome s) \<noteq> None)"

text \<open>The \<^verbatim>\<open>call_lock\<close>s of a run in order: the toolkit function called (none for a
  command string of the script's own) and the \<^verbatim>\<open>nofail\<close> flag.\<close>

definition call_flags :: "event list \<Rightarrow> (string option \<times> bool) list" where
  "call_flags es = map (\<lambda>e. (call_name e, is_nofail e)) (filter is_call es)"

text \<open>An event stays within a list of tools when it is no toolkit call or a call of a
  listed tool.\<close>

definition within :: "string list \<Rightarrow> event \<Rightarrow> bool" where
  "within tools e = (case call_name e of None \<Rightarrow> True | Some n \<Rightarrow> n \<in> set tools)"

text \<open>The toolkit functions called by the blocks before the test for a control sample,
  and by the blocks of the Quant-seq script.\<close>

definition upstream_tools :: "string list" where
  "upstream_tools =
     [''fastqc'', ''bam2fastq'', ''trimmomatic'', ''skewer'', ''bowtie2Map'', ''filterReads'',
      ''shiftReads'', ''indexBam'', ''bamToBigWig'', ''addTrackToHub'', ''genomeWideCoverage'',
      ''peakTools'']"

definition quantseq_tools :: "string list" where
  "quantseq_tools =
     [''fastqc'', ''bam2fastq'', ''topHatMap'', ''bowtie2Map'', ''filterReads'', ''sortIndexBam'',
      ''htSeqCount'', ''kallisto'']"

text \<open>The \<^verbatim>\<open>call_lock\<close> of the merge (chipseq.py 79-83, quantseq.py 76-80).\<close>

definition merge_call :: "string list \<Rightarrow> sample \<Rightarrow> event" where
  "merge_call bams s =
     CallLock (Tk ''mergeBams'' [(''inputBams'', StrList bams), (''outputBam'', Str (unmapped s))])
       (Some (unmapped s)) None True False"

section \<open>Sequencing lemmas\<close>

lemma fst_emit: "fst (emit es) = es" by (simp add: emit_def)
lemma fst_raise: "fst (raise es e) = es" by (simp add: raise_def)
lemma snd_emit: "snd (emit es) = Inr ()" by (simp add: emit_def)
lemma snd_raise: "snd (raise es e) = Inl e" by (simp add: raise_def)

lemma run_single: "run [m] = m"
proof (cases m)
  case (Pair es r)
  then show ?thesis by (cases r) simp_all
qed

lemma run_all_ok:
  "list_all (\<lambda>m. snd m = Inr ()) ms \<Longrightarrow> run ms = (concat (map fst ms), Inr ())"
  by (induction ms rule: run.induct) auto

lemma run_list_all:
  "list_all P (concat (map fst ms)) \<Longrightarrow> list_all P (fst (run ms))"
  by (induction ms rule: run.induct) (auto split: prod.splits)

lemma run_append_ok:
  "snd (run ms) = Inr () \<Longrightarrow> run (ms @ ns) = (fst (run ms) @ fst (run ns), snd (run ns))"
  by (induction ms rule: run.induct) (auto split: prod.splits)

lemma run_append_fail:
  "snd (run ms) = Inl e \<Longrightarrow> run (ms @ ns) = run ms"
  by (induction ms rule: run.induct) (auto split: prod.splits)

lemma merge_bams_sample:
  "snd (merge_bams s) =
     s\<lparr>unmappedBam := Path (case unmappedBam s of Path x \<Rightarrow> x | Paths xs \<Rightarrow> unmapped s)\<rparr>"
  by (cases "unmappedBam s") (simp_all add: merge_bams_def)

lemma chipseq_process_unfold:
  "chipseq_process a p x s =
     ([Print (''Start processing ChIP-seq sample '' @ name s @ ''.''), Pypiper ''pipe'' (sampleRoot (dirs s)) a]
        @ fst (merge_bams s)
        @ fst (run (chipseq_upto_qc a p (snd (merge_bams s)) @ [chipseq_after_qc a p x (snd (merge_bams s))])),
      snd (merge_bams s),
      snd (run (chipseq_upto_qc a p (snd (merge_bams s)) @ [chipseq_after_qc a p x (snd (merge_bams s))])))"
  by (simp add: chipseq_process_def split: prod.splits)

lemmas upto_qc_defs = fastqc_def bam2fastq_def trim_reads_def map_reads_def filter_reads_def
  shift_reads_def index_bams_def make_tracks_def genome_coverage_def signal_noise_def

lemma upto_qc_ok:
  assumes "genome_configured p s"
  shows "run (chipseq_upto_qc a p s) = (concat (map fst (chipseq_upto_qc a p s)), Inr ())"
  using assms
  by (intro run_all_ok)
     (auto simp: genome_configured_def chipseq_upto_qc_def upto_qc_defs lookup_def snd_emit)

lemma upto_qc_not_downstream:
  "list_all (\<lambda>e. \<not> is_downstream e) (concat (map fst (chipseq_upto_qc a p s)))"
  unfolding chipseq_upto_qc_def list.map concat.simps list_all_append
  apply (intro conjI)
  apply (simp_all add: upto_qc_defs fst_emit fst_raise downstream_tools_def split: sum.splits)
  done

lemma upto_qc_last:
  "genome_configured p s \<Longrightarrow> suffix [qc_call a s] (fst (run (chipseq_upto_qc a p s)))"
  by (simp add: upto_qc_ok) (simp add: chipseq_upto_qc_def signal_noise_def fst_emit qc_call_def suffix_def)

section \<open>Facts about the merged sample\<close>

lemma merged_fields:
  "ctrl (snd (merge_bams s)) = ctrl s"
  "genome_configured p (snd (merge_bams s)) = genome_configured p s"
  "qc_call a (snd (merge_bams s)) = qc_call a s"
  "name (snd (merge_bams s)) = name s"
  by (simp_all add: merge_bams_sample genome_configured_def qc_call_def)

lemma merge_bams_not_downstream:
  "list_all (\<lambda>e. \<not> is_downstream e) (fst (merge_bams s))"
  by (cases "unmappedBam s") (simp_all add: merge_bams_def downstream_tools_def)

section \<open>The early return and the unimplemented peak caller\<close>

text \<open>
  C1.  A ChIP-seq run on a sample without a control never invokes a stage after the
  signal/noise stage: no peak calling (nor the directory it creates), no motif
  discovery, centering or annotation, no enrichment plot and no FRiP call occurs among
  its events, whatever else happens in the run.  When the genome of the sample is
  configured, the run returns normally, and its last two events are the
  \<^verbatim>\<open>call_lock\<close> of the signal/noise stage and the closing message.
\<close>

theorem chipseq_no_ctrl_early_exit:
  assumes "ctrl s = None"
  shows "list_all (\<lambda>e. \<not> is_downstream e) (chipseq_trace a p x s) \<and>
         (genome_configured p s \<longrightarrow>
            chipseq_outcome a p x s = Inr () \<and>
            suffix [qc_call a s, Print (''Finished processing sample '' @ name s @ ''.'')]
              (chipseq_trace a p x s))"
proof -
  define s' where "s' = snd (merge_bams s)"
  have after: "chipseq_after_qc a p x s' = emit [Print (''Finished processing sample '' @ name s @ ''.'')]"
    using assms by (simp add: chipseq_after_qc_def s'_def merged_fields)
  have "list_all (\<lambda>e. \<not> is_downstream e)
          (concat (map fst (chipseq_upto_qc a p s' @ [chipseq_after_qc a p x s'])))"
    using upto_qc_not_downstream[of a p s'] by (simp add: after fst_emit)
  then have "list_all (\<lambda>e. \<not> is_downstream e)
          (fst (run (chipseq_upto_qc a p s' @ [chipseq_after_qc a p x s'])))"
    by (rule run_list_all)
  then have never: "list_all (\<lambda>e. \<not> is_downstream e) (chipseq_trace a p x s)"
    using merge_bams_not_downstream[of s]
    by (simp add: chipseq_process_unfold s'_def)
  have early: "chipseq_outcome a p x s = Inr () \<and>
      suffix [qc_call a s, Print (''Finished processing sample '' @ name s @ ''.'')]
        (chipseq_trace a p x s)" if conf: "genome_configured p s"
  proof -
    have conf': "genome_configured p s'" using conf by (simp add: s'_def merged_fields)
    have ok: "snd (run (chipseq_upto_qc a p s')) = Inr ()"
      by (simp add: upto_qc_ok[OF conf'])
    obtain zs where zs: "fst (run (chipseq_upto_qc a p s')) = zs @ [qc_call a s]"
      using upto_qc_last[OF conf', of a] by (auto simp: suffix_def s'_def merged_fields)
    have r: "run (chipseq_upto_qc a p s' @ [chipseq_after_qc a p x s']) =
        (zs @ [qc_call a s, Print (''Finished processing sample '' @ name s @ ''.'')], Inr ())"
      by (simp add: run_append_ok[OF ok] run_single after zs fst_emit snd_emit)
    show ?thesis
      by (simp add: chipseq_process_unfold s'_def[symmetric] r suffix_def)
  qed
  from never early show ?thesis by blast
qed

theorem chipseq_no_ctrl_early_exit_witness:
  "ctrl ex_sample = None \<and> genome_configured ex_project ex_sample \<and>
   list_all (\<lambda>e. \<not> is_downstream e) (chipseq_trace ex_args ex_project ex_exists ex_sample) \<and>
   chipseq_outcome ex_args ex_project ex_exists ex_sample = Inr () \<and>
   suffix [qc_call ex_args ex_sample, Print ''Finished processing sample s1.'']
     (chipseq_trace ex_args ex_project ex_exists ex_sample)"
proof -
  have h: "ctrl ex_sample = None" by (simp add: ex_sample_def)
  have c: "genome_configured ex_project ex_sample"
    by (simp add: genome_configured_def ex_project_def ex_sample_def ex_genome_map_def)
  have n: "name ex_sample = ''s1''" by (simp add: ex_sample_def)
  from chipseq_no_ctrl_early_exit[OF h, of ex_args ex_project ex_exists] c h n
  show ?thesis by simp
qed

lemma run_snoc_fails: "snd m = Inl e \<Longrightarrow> snd (run (ms @ [m])) \<noteq> Inr ()"
proof (cases "snd (run ms)")
  case (Inl e')
  then show ?thesis by (simp add: run_append_fail)
next
  case (Inr u)
  assume "snd m = Inl e"
  with Inr show ?thesis by (simp add: run_append_ok run_single)
qed

lemma zinba_after_qc:
  assumes "peak_caller a = ''zinba''" "ctrl s = Some c"
  shows "chipseq_after_qc a p x s =
           raise [] (NotImplementedError ''Calling peaks with Zinba is not yet implemented.'')"
  using assms by (simp add: chipseq_after_qc_def chipseq_peak_stages_def call_peaks_def raise_def)

text \<open>
  C2.  With \<^verbatim>\<open>peak_caller = "zinba"\<close> and a control sample, the run never ends normally
  and never issues a peak-calling command or any later stage.  When the genome of the
  sample is configured, the run ends with \<^verbatim>\<open>NotImplementedError\<close>, raised directly after
  the \<^verbatim>\<open>call_lock\<close> of the signal/noise stage: that call is the last event of the run.
\<close>

theorem chipseq_zinba_not_implemented:
  assumes "peak_caller a = ''zinba''" and "ctrl s = Some c"
  shows "list_all (\<lambda>e. \<not> is_downstream e) (chipseq_trace a p x s) \<and>
         chipseq_outcome a p x s \<noteq> Inr () \<and>
         (genome_configured p s \<longrightarrow>
            chipseq_outcome a p x s =
              Inl (NotImplementedError ''Calling peaks with Zinba is not yet implemented.'') \<and>
            suffix [qc_call a s] (chipseq_trace a p x s))"
proof -
  define s' where "s' = snd (merge_bams s)"
  have after: "chipseq_after_qc a p x s' =
      raise [] (NotImplementedError ''Calling peaks with Zinba is not yet implemented.'')"
    using assms by (intro zinba_after_qc[where c = c]) (simp_all add: s'_def merged_fields)
  have "list_all (\<lambda>e. \<not> is_downstream e)
          (concat (map fst (chipseq_upto_qc a p s' @ [chipseq_after_qc a p x s'])))"
    using upto_qc_not_downstream[of a p s'] by (simp add: after fst_raise)
  then have "list_all (\<lambda>e. \<not> is_downstream e)
          (fst (run (chipseq_upto_qc a p s' @ [chipseq_after_qc a p x s'])))"
    by (rule run_list_all)
  then have never: "list_all (\<lambda>e. \<not> is_downstream e) (chipseq_trace a p x s)"
    using merge_bams_not_downstream[of s]
    by (simp add: chipseq_process_unfold s'_def)
  have fails: "chipseq_outcome a p x s \<noteq> Inr ()"
    using run_snoc_fails[of "chipseq_after_qc a p x s'" _ "chipseq_upto_qc a p s'"]
    by (simp add: chipseq_process_unfold s'_def[symmetric] after snd_raise)
  have at_branch: "chipseq_outcome a p x s =
        Inl (NotImplementedError ''Calling peaks with Zinba is not yet implemented.'') \<and>
      suffix [qc_call a s] (chipseq_trace a p x s)" if conf: "genome_configured p s"
  proof -
    have conf': "genome_configured p s'" using conf by (simp add: s'_def merged_fields)
    have ok: "snd (run (chipseq_upto_qc a p s')) = Inr ()"
      by (simp add: upto_qc_ok[OF conf'])
    obtain zs where zs: "fst (run (chipseq_upto_qc a p s')) = zs @ [qc_call a s]"
      using upto_qc_last[OF conf', of a] by (auto simp: suffix_def s'_def merged_fields)
    have r: "run (chipseq_upto_qc a p s' @ [chipseq_after_qc a p x s']) =
        (zs @ [qc_call a s],
         Inl (NotImplementedError ''Calling peaks with Zinba is not yet implemented.''))"
      by (simp add: run_append_ok[OF ok] run_single after zs fst_raise snd_raise)
    show ?thesis
      by (simp add: chipseq_process_unfold s'_def[symmetric] r suffix_def)
  qed
  from never fails at_branch show ?thesis by blast
qed

theorem chipseq_zinba_not_implemented_witness:
  "peak_caller (ex_args\<lparr>peak_caller := ''zinba''\<rparr>) = ''zinba'' \<and>
   ctrl ex_sample_ctrl = Some ex_ctrl \<and> genome_configured ex_project ex_sample_ctrl \<and>
   list_all (\<lambda>e. \<not> is_downstream e)
     (chipseq_trace (ex_args\<lparr>peak_caller := ''zinba''\<rparr>) ex_project ex_exists ex_sample_ctrl) \<and>
   chipseq_outcome (ex_args\<lparr>peak_caller := ''zinba''\<rparr>) ex_project ex_exists ex_sample_ctrl =
     Inl (NotImplementedError ''Calling peaks with Zinba is not yet implemented.'') \<and>
   suffix [qc_call (ex_args\<lparr>peak_caller := ''zinba''\<rparr>) ex_sample_ctrl]
     (chipseq_trace (ex_args\<lparr>peak_caller := ''zinba''\<rparr>) ex_project ex_exists ex_sample_ctrl)"
proof -
  have z: "peak_caller (ex_args\<lparr>peak_caller := ''zinba''\<rparr>) = ''zinba''" by simp
  have h: "ctrl ex_sample_ctrl = Some ex_ctrl" by (simp add: ex_sample_ctrl_def)
  have c: "genome_configured ex_project ex_sample_ctrl"
    by (simp add: genome_configured_def ex_project_def ex_sample_ctrl_def ex_sample_def
        ex_genome_map_def)
  from chipseq_zinba_not_implemented[OF z h, of ex_project ex_exists] c h
  show ?thesis by simp
qed

section \<open>The alignments and the trim stage of the Quant-seq script\<close>

text \<open>
  C3 (the code differs).  On the paired example sample the ERCC alignment of the
  Quant-seq script (quantseq.py 144-153) is called with the first trimmed file as both
  \<^verbatim>\<open>inputFastq1\<close> and \<^verbatim>\<open>inputFastq2\<close>; the second trimmed file, which the pseudo-alignment of
  the same run and the alignment of the ChIP-seq script receive as second input, is not
  passed.
\<close>

theorem quantseq_ercc_second_input:
  "paired ex_sample \<and>
   trimmed1 ex_sample = ''/prj/s1/unmapped/s1.1.trimmed.fastq'' \<and>
   trimmed2 ex_sample = ''/prj/s1/unmapped/s1.2.trimmed.fastq'' \<and>
   map (kwarg ''inputFastq1'') (calls_of ''bowtie2Map'' (quantseq_trace ex_args ex_project ex_sample))
     = [Some (Str ''/prj/s1/unmapped/s1.1.trimmed.fastq'')] \<and>
   map (kwarg ''inputFastq2'') (calls_of ''bowtie2Map'' (quantseq_trace ex_args ex_project ex_sample))
     = [Some (Str ''/prj/s1/unmapped/s1.1.trimmed.fastq'')] \<and>
   map (kwarg ''inputFastq2'') (calls_of ''kallisto'' (quantseq_trace ex_args ex_project ex_sample))
     = [Some (Str ''/prj/s1/unmapped/s1.2.trimmed.fastq'')] \<and>
   map (kwarg ''inputFastq2'') (calls_of ''bowtie2Map'' (chipseq_trace ex_args ex_project ex_exists ex_sample))
     = [Some (Str ''/prj/s1/unmapped/s1.2.trimmed.fastq'')]"
  by code_simp

lemma quantseq_process_unfold:
  "quantseq_process a p s =
     ([Print (''Start processing Quant-seq sample '' @ name s @ ''.''), Pypiper ''pipe'' (sampleRoot (dirs s)) a]
        @ fst (merge_bams s) @ fst (run (quantseq_stages a p (snd (merge_bams s)))),
      snd (merge_bams s),
      snd (run (quantseq_stages a p (snd (merge_bams s)))))"
  by (simp add: quantseq_process_def split: prod.splits)

lemma shell_cmds_none: "list_all (\<lambda>e. shell_cmd e = []) es \<Longrightarrow> shell_cmds es = []"
  by (simp add: shell_cmds_def list_all_iff)

lemma shell_cmds_append: "shell_cmds (xs @ ys) = shell_cmds xs @ shell_cmds ys"
  by (simp add: shell_cmds_def)

lemma merge_bams_no_shell: "shell_cmds (fst (merge_bams s)) = []"
  by (cases "unmappedBam s") (simp_all add: merge_bams_def shell_cmds_def)

lemma quantseq_rest_no_shell:
  "list_all (\<lambda>e. shell_cmd e = [])
     (concat (map fst [q_map_tophat a p s, q_map_ercc a p s, q_filter_reads a s, q_sort_index s,
        q_quantify p s, q_quantify_ercc p s, q_kallisto a p s, finish s]))"
  unfolding list.map concat.simps list_all_append
  apply (intro conjI)
  apply (simp_all add: q_map_tophat_def q_map_ercc_def q_filter_reads_def q_sort_index_def
      q_quantify_def q_quantify_ercc_def q_kallisto_def finish_def fst_emit fst_raise
      split: sum.splits)
  done

lemma stages_ignore_trimmer:
  "q_trim_reads (a\<lparr>trimmer := t\<rparr>) p s = q_trim_reads a p s"
  "q_map_tophat (a\<lparr>trimmer := t\<rparr>) p s = q_map_tophat a p s"
  "q_map_ercc (a\<lparr>trimmer := t\<rparr>) p s = q_map_ercc a p s"
  "q_filter_reads (a\<lparr>trimmer := t\<rparr>) s = q_filter_reads a s"
  "q_kallisto (a\<lparr>trimmer := t\<rparr>) p s = q_kallisto a p s"
  by (simp_all add: q_trim_reads_def q_map_tophat_def q_map_ercc_def
      q_filter_reads_def q_kallisto_def split: sum.splits)

lemma quantseq_stages_trimmer:
  "quantseq_stages (a\<lparr>trimmer := t\<rparr>) p s = quantseq_stages a p s"
  by (simp add: quantseq_stages_def stages_ignore_trimmer)

lemma head_shell1: "shell_cmds (fst (fastqc s)) = []"
  by (simp add: fastqc_def fst_emit shell_cmds_def)

lemma head_shell2: "shell_cmds (fst (bam2fastq s)) = []"
  by (auto simp add: bam2fastq_def fst_emit shell_cmds_def)

lemma head_shell3:
  "shell_cmds (fst (q_trim_reads a p s)) =
     [trimmomatic (if paired s then fastq1 s else fastq s)
        (if paired s then trimmed1 s else trimmed s)
        (cpus a) (adapters (prj_config p)) (trimlog s)
        (opt_paired s (fastq2 s)) (opt_paired s (trimmed1Unpaired s))
        (opt_paired s (trimmed2 s)) (opt_paired s (trimmed2Unpaired s))]"
  by (simp add: q_trim_reads_def fst_emit shell_cmds_def)

lemma run_ok_Cons: "snd m = Inr () \<Longrightarrow> run (m # ms) = (fst m @ fst (run ms), snd (run ms))"
  by (cases m) (auto split: prod.splits)

lemma head_ok:
  "snd (fastqc s) = Inr ()" "snd (bam2fastq s) = Inr ()" "snd (q_trim_reads a p s) = Inr ()"
  by (simp_all add: fastqc_def bam2fastq_def q_trim_reads_def snd_emit)

lemma trimmomatic_paired_form:
  "trimmomatic in1 out1 n ad lg (Some in2) (Some out1u) (Some out2) (Some out2u) =
     ''java -Xmx4g -jar `which trimmomatic-0.32.jar` PE -threads '' @ str_int n
       @ '' -trimlog '' @ lg @ '' '' @ in1 @ '' '' @ in2
       @ '' '' @ out1 @ '' '' @ out1u @ '' '' @ out2 @ '' '' @ out2u
       @ '' ILLUMINACLIP:'' @ ad
       @ '':1:40:15:8:true HEADCROP:12 TRAILING:3 SLIDINGWINDOW:4:10 MINLEN:36''"
  by (simp add: trimmomatic_def Let_def fmt_opt_def)

lemma trimmomatic_single_form:
  "trimmomatic in1 out1 n ad lg None out1u out2 out2u =
     ''java -Xmx4g -jar `which trimmomatic-0.32.jar` SE -threads '' @ str_int n
       @ '' -trimlog '' @ lg @ '' '' @ in1 @ '' '' @ out1
       @ '' ILLUMINACLIP:'' @ ad
       @ '':1:40:15:8:true HEADCROP:12 TRAILING:3 SLIDINGWINDOW:4:10 MINLEN:36''"
  by (simp add: trimmomatic_def Let_def)

lemma quantseq_shell_cmds:
  "shell_cmds (quantseq_trace a p s) =
     [trimmomatic (if paired s then fastq1 s else fastq s)
        (if paired s then trimmed1 s else trimmed s)
        (cpus a) (adapters (prj_config p)) (trimlog s)
        (opt_paired s (fastq2 s)) (opt_paired s (trimmed1Unpaired s))
        (opt_paired s (trimmed2 s)) (opt_paired s (trimmed2Unpaired s))]"
proof -
  define s' where "s' = snd (merge_bams s)"
  have rest: "shell_cmds (fst (run [q_map_tophat a p s', q_map_ercc a p s', q_filter_reads a s',
        q_sort_index s', q_quantify p s', q_quantify_ercc p s', q_kallisto a p s', finish s'])) = []"
    by (intro shell_cmds_none run_list_all quantseq_rest_no_shell)
  have "shell_cmds (fst (run (quantseq_stages a p s'))) =
     [trimmomatic (if paired s' then fastq1 s' else fastq s')
        (if paired s' then trimmed1 s' else trimmed s')
        (cpus a) (adapters (prj_config p)) (trimlog s')
        (opt_paired s' (fastq2 s')) (opt_paired s' (trimmed1Unpaired s'))
        (opt_paired s' (trimmed2 s')) (opt_paired s' (trimmed2Unpaired s'))]"
    unfolding quantseq_stages_def
    by (simp only: run_ok_Cons head_ok fst_conv shell_cmds_append head_shell1 head_shell2
        head_shell3 rest append_Nil append_Nil2)
  then show ?thesis
    unfolding quantseq_process_unfold s'_def[symmetric] fst_conv shell_cmds_append merge_bams_no_shell
    by (simp add: shell_cmds_def) (simp add: s'_def merge_bams_sample opt_paired_def)
qed

lemma quantseq_calls_trimmer:
  "filter is_call (quantseq_trace (a\<lparr>trimmer := t\<rparr>) p s) = filter is_call (quantseq_trace a p s)"
  "quantseq_sample_after (a\<lparr>trimmer := t\<rparr>) p s = quantseq_sample_after a p s"
  "quantseq_outcome (a\<lparr>trimmer := t\<rparr>) p s = quantseq_outcome a p s"
  by (simp_all add: quantseq_process_unfold quantseq_stages_trimmer)

text \<open>
  C4.  On every Quant-seq run the only command string the script builds itself is the one
  of its trim stage, and it is the trimmomatic command line: the jar, \<^verbatim>\<open>PE\<close> or \<^verbatim>\<open>SE\<close>, the
  thread count, the trim log, the input read files, the trimmed output files (four when
  paired, one otherwise), \<^verbatim>\<open>ILLUMINACLIP\<close> with the adapters, and the fixed steps from
  \<^verbatim>\<open>HEADCROP:12\<close> to \<^verbatim>\<open>MINLEN:36\<close>.  Changing \<^verbatim>\<open>args.trimmer\<close> changes neither the trim stage, nor
  any \<^verbatim>\<open>call_lock\<close> of the run, nor the sample, nor the outcome.
\<close>

theorem quantseq_trim_command:
  "shell_cmds (quantseq_trace a p s) =
     [if paired s
      then ''java -Xmx4g -jar `which trimmomatic-0.32.jar` PE -threads '' @ str_int (cpus a)
             @ '' -trimlog '' @ trimlog s @ '' '' @ fastq1 s @ '' '' @ fastq2 s
             @ '' '' @ trimmed1 s @ '' '' @ trimmed1Unpaired s
             @ '' '' @ trimmed2 s @ '' '' @ trimmed2Unpaired s
             @ '' ILLUMINACLIP:'' @ adapters (prj_config p)
             @ '':1:40:15:8:true HEADCROP:12 TRAILING:3 SLIDINGWINDOW:4:10 MINLEN:36''
      else ''java -Xmx4g -jar `which trimmomatic-0.32.jar` SE -threads '' @ str_int (cpus a)
             @ '' -trimlog '' @ trimlog s @ '' '' @ fastq s @ '' '' @ trimmed s
             @ '' ILLUMINACLIP:'' @ adapters (prj_config p)
             @ '':1:40:15:8:true HEADCROP:12 TRAILING:3 SLIDINGWINDOW:4:10 MINLEN:36''] \<and>
   shell_cmds (quantseq_trace (a\<lparr>trimmer := t\<rparr>) p s) = shell_cmds (quantseq_trace a p s) \<and>
   q_trim_reads (a\<lparr>trimmer := t\<rparr>) p s = q_trim_reads a p s \<and>
   filter is_call (quantseq_trace (a\<lparr>trimmer := t\<rparr>) p s) = filter is_call (quantseq_trace a p s) \<and>
   quantseq_sample_after (a\<lparr>trimmer := t\<rparr>) p s = quantseq_sample_after a p s \<and>
   quantseq_outcome (a\<lparr>trimmer := t\<rparr>) p s = quantseq_outcome a p s"
proof -
  have form: "shell_cmds (quantseq_trace a p s) =
     [if paired s
      then ''java -Xmx4g -jar `which trimmomatic-0.32.jar` PE -threads '' @ str_int (cpus a)
             @ '' -trimlog '' @ trimlog s @ '' '' @ fastq1 s @ '' '' @ fastq2 s
             @ '' '' @ trimmed1 s @ '' '' @ trimmed1Unpaired s
             @ '' '' @ trimmed2 s @ '' '' @ trimmed2Unpaired s
             @ '' ILLUMINACLIP:'' @ adapters (prj_config p)
             @ '':1:40:15:8:true HEADCROP:12 TRAILING:3 SLIDINGWINDOW:4:10 MINLEN:36''
      else ''java -Xmx4g -jar `which trimmomatic-0.32.jar` SE -threads '' @ str_int (cpus a)
             @ '' -trimlog '' @ trimlog s @ '' '' @ fastq s @ '' '' @ trimmed s
             @ '' ILLUMINACLIP:'' @ adapters (prj_config p)
             @ '':1:40:15:8:true HEADCROP:12 TRAILING:3 SLIDINGWINDOW:4:10 MINLEN:36'']"
  proof (cases "paired s")
    case True
    then show ?thesis
      unfolding quantseq_shell_cmds by (simp only: opt_paired_def if_True trimmomatic_paired_form)
  next
    case False
    then show ?thesis
      unfolding quantseq_shell_cmds by (simp only: opt_paired_def if_False trimmomatic_single_form)
  qed
  have same: "shell_cmds (quantseq_trace (a\<lparr>trimmer := t\<rparr>) p s) = shell_cmds (quantseq_trace a p s)"
    unfolding quantseq_shell_cmds by simp
  from form same stages_ignore_trimmer(1)[where a = a and t = t and p = p and s = s]
    quantseq_calls_trimmer[where a = a and t = t and p = p and s = s]
  show ?thesis by blast
qed

theorem quantseq_trim_command_witness:
  "shell_cmds (quantseq_trace ex_args ex_project ex_sample) =
     [''java -Xmx4g -jar `which trimmomatic-0.32.jar` PE -threads 4 -trimlog /prj/s1/unmapped/s1.trimlog.txt /prj/s1/unmapped/s1.1.fastq /prj/s1/unmapped/s1.2.fastq /prj/s1/unmapped/s1.1.trimmed.fastq /prj/s1/unmapped/s1.1_unpaired.trimmed.fastq /prj/s1/unmapped/s1.2.trimmed.fastq /prj/s1/unmapped/s1.2_unpaired.trimmed.fastq ILLUMINACLIP:/ref/adapters.fa:1:40:15:8:true HEADCROP:12 TRAILING:3 SLIDINGWINDOW:4:10 MINLEN:36''] \<and>
   shell_cmds (quantseq_trace ex_args ex_project ex_sample_single) =
     [''java -Xmx4g -jar `which trimmomatic-0.32.jar` SE -threads 4 -trimlog /prj/s1/unmapped/s1.trimlog.txt /prj/s1/unmapped/s1.fastq /prj/s1/unmapped/s1.trimmed.fastq ILLUMINACLIP:/ref/adapters.fa:1:40:15:8:true HEADCROP:12 TRAILING:3 SLIDINGWINDOW:4:10 MINLEN:36''] \<and>
   trimmer ex_args = ''skewer'' \<and>
   shell_cmds (quantseq_trace (ex_args\<lparr>trimmer := ''trimmomatic''\<rparr>) ex_project ex_sample) =
     shell_cmds (quantseq_trace ex_args ex_project ex_sample)"
proof -
  have n: "str_int (cpus ex_args) = ''4''"
    by code_simp
  have f: "paired ex_sample" "\<not> paired ex_sample_single" "trimmer ex_args = ''skewer''"
    by (simp_all add: ex_sample_def ex_sample_single_def ex_args_def)
  from quantseq_trim_command[where a = ex_args and p = ex_project and s = ex_sample]
  have 1: "shell_cmds (quantseq_trace ex_args ex_project ex_sample) =
     [''java -Xmx4g -jar `which trimmomatic-0.32.jar` PE -threads 4 -trimlog /prj/s1/unmapped/s1.trimlog.txt /prj/s1/unmapped/s1.1.fastq /prj/s1/unmapped/s1.2.fastq /prj/s1/unmapped/s1.1.trimmed.fastq /prj/s1/unmapped/s1.1_unpaired.trimmed.fastq /prj/s1/unmapped/s1.2.trimmed.fastq /prj/s1/unmapped/s1.2_unpaired.trimmed.fastq ILLUMINACLIP:/ref/adapters.fa:1:40:15:8:true HEADCROP:12 TRAILING:3 SLIDINGWINDOW:4:10 MINLEN:36'']"
    by (simp add: n f) (simp add: ex_sample_def ex_project_def)
  from quantseq_trim_command[where a = ex_args and p = ex_project and s = ex_sample_single]
  have 2: "shell_cmds (quantseq_trace ex_args ex_project ex_sample_single) =
     [''java -Xmx4g -jar `which trimmomatic-0.32.jar` SE -threads 4 -trimlog /prj/s1/unmapped/s1.trimlog.txt /prj/s1/unmapped/s1.fastq /prj/s1/unmapped/s1.trimmed.fastq ILLUMINACLIP:/ref/adapters.fa:1:40:15:8:true HEADCROP:12 TRAILING:3 SLIDINGWINDOW:4:10 MINLEN:36'']"
    by (simp add: n f) (simp add: ex_sample_single_def ex_sample_def ex_project_def)
  from quantseq_trim_command[where a = "ex_args\<lparr>trimmer := ''trimmomatic''\<rparr>" and p = ex_project
      and s = ex_sample and t = "''skewer''"]
  have 3: "shell_cmds (quantseq_trace (ex_args\<lparr>trimmer := ''trimmomatic''\<rparr>) ex_project ex_sample) =
     shell_cmds (quantseq_trace ex_args ex_project ex_sample)"
    using f(3) by (simp add: ex_args_def)
  from 1 2 3 f(3) show ?thesis by blast
qed

section \<open>Complete runs and their calls\<close>

lemmas peak_defs = call_peaks_def find_motifs_def center_peaks_def annotate_peaks_def
  plot_peak_enrichment_def plot_tss_enrichment_def calculate_frip_def finish_def

lemmas quant_defs = fastqc_def bam2fastq_def q_trim_reads_def q_map_tophat_def q_map_ercc_def
  q_filter_reads_def q_sort_index_def q_quantify_def q_quantify_ercc_def q_kallisto_def finish_def

lemma peak_stages_ok:
  assumes "peak_caller a \<noteq> ''zinba''" and "tss (prj_config p) (genome s) \<noteq> None"
  shows "run (chipseq_peak_stages a p x s c) = (concat (map fst (chipseq_peak_stages a p x s c)), Inr ())"
  using assms
  by (intro run_all_ok)
     (auto simp: chipseq_peak_stages_def peak_defs lookup_def snd_emit)

lemma chipseq_full_run:
  assumes "ctrl s = Some c" and "peak_caller a \<noteq> ''zinba''" and "genome_configured p s"
    and "tss (prj_config p) (genome s) \<noteq> None"
  shows "chipseq_process a p x s =
     ([Print (''Start processing ChIP-seq sample '' @ name s @ ''.''), Pypiper ''pipe'' (sampleRoot (dirs s)) a]
        @ fst (merge_bams s)
        @ concat (map fst (chipseq_upto_qc a p (snd (merge_bams s))))
        @ concat (map fst (chipseq_peak_stages a p x (snd (merge_bams s)) c)),
      snd (merge_bams s), Inr ())"
proof -
  define s' where "s' = snd (merge_bams s)"
  have conf': "genome_configured p s'" using assms(3) by (simp add: s'_def merged_fields)
  have tss': "tss (prj_config p) (genome s') \<noteq> None"
    using assms(4) by (simp add: s'_def merge_bams_sample)
  have after: "chipseq_after_qc a p x s' = run (chipseq_peak_stages a p x s' c)"
    using assms(1) by (simp add: chipseq_after_qc_def s'_def merged_fields)
  have ok: "snd (run (chipseq_upto_qc a p s')) = Inr ()"
    by (simp add: upto_qc_ok[OF conf'])
  show ?thesis
    unfolding chipseq_process_unfold s'_def[symmetric]
    by (simp add: run_append_ok[OF ok] run_single after upto_qc_ok[OF conf']
        peak_stages_ok[OF assms(2) tss'])
qed

lemma quantseq_stages_ok:
  assumes "quant_configured p s"
  shows "run (quantseq_stages a p s) = (concat (map fst (quantseq_stages a p s)), Inr ())"
  using assms
  by (intro run_all_ok)
     (auto simp: quant_configured_def quantseq_stages_def quant_defs lookup_def snd_emit)

lemma quantseq_full_run:
  assumes "quant_configured p s"
  shows "quantseq_process a p s =
     ([Print (''Start processing Quant-seq sample '' @ name s @ ''.''), Pypiper ''pipe'' (sampleRoot (dirs s)) a]
        @ fst (merge_bams s) @ concat (map fst (quantseq_stages a p (snd (merge_bams s)))),
      snd (merge_bams s), Inr ())"
proof -
  have "quant_configured p (snd (merge_bams s))"
    using assms by (simp add: quant_configured_def merge_bams_sample)
  then show ?thesis
    by (simp add: quantseq_process_unfold quantseq_stages_ok)
qed


lemma merge_bams_events:
  "fst (merge_bams s) =
     (case unmappedBam s of
        Paths bams \<Rightarrow>
          [Timestamp ''Merging bam files from replicates'',
           CallLock (Tk ''mergeBams'' [(''inputBams'', StrList bams), (''outputBam'', Str (unmapped s))])
             (Some (unmapped s)) None True False]
      | Path x \<Rightarrow> [])"
  by (cases "unmappedBam s") (simp_all add: merge_bams_def)

lemma chipseq_upto_qc_nofail_ok:
  "list_all chipseq_nofail_ok (concat (map fst (chipseq_upto_qc a p s)))"
  unfolding chipseq_upto_qc_def list.map concat.simps list_all_append
  apply (intro conjI)
  apply (simp_all add: upto_qc_defs fst_emit fst_raise chipseq_nofail_ok_def split: sum.splits)
  done

lemma chipseq_peak_stages_nofail_ok:
  "list_all chipseq_nofail_ok (concat (map fst (chipseq_peak_stages a p x s c)))"
  unfolding chipseq_peak_stages_def list.map concat.simps list_all_append
  apply (intro conjI)
  apply (simp_all add: peak_defs fst_emit fst_raise chipseq_nofail_ok_def split: sum.splits)
  done

lemma chipseq_after_qc_nofail_ok:
  "list_all chipseq_nofail_ok (fst (chipseq_after_qc a p x s))"
proof (cases "ctrl s")
  case None
  then show ?thesis by (simp add: chipseq_after_qc_def fst_emit chipseq_nofail_ok_def)
next
  case (Some c)
  then show ?thesis
    by (simp add: chipseq_after_qc_def run_list_all[OF chipseq_peak_stages_nofail_ok])
qed

lemma chipseq_trace_nofail_ok: "list_all chipseq_nofail_ok (chipseq_trace a p x s)"
proof -
  define s' where "s' = snd (merge_bams s)"
  have "list_all chipseq_nofail_ok
          (concat (map fst (chipseq_upto_qc a p s' @ [chipseq_after_qc a p x s'])))"
    using chipseq_upto_qc_nofail_ok[of a p s'] chipseq_after_qc_nofail_ok[of a p x s'] by simp
  then have "list_all chipseq_nofail_ok
          (fst (run (chipseq_upto_qc a p s' @ [chipseq_after_qc a p x s'])))"
    by (rule run_list_all)
  moreover have "list_all chipseq_nofail_ok (fst (merge_bams s))"
    by (simp add: merge_bams_events chipseq_nofail_ok_def split: unmapped_bam.splits)
  ultimately show ?thesis
    by (simp add: chipseq_process_unfold s'_def) (simp add: chipseq_nofail_ok_def)
qed

lemma quantseq_stages_nofail_ok:
  "list_all quantseq_nofail_ok (concat (map fst (quantseq_stages a p s)))"
  unfolding quantseq_stages_def list.map concat.simps list_all_append
  apply (intro conjI)
  apply (simp_all add: quant_defs fst_emit fst_raise quantseq_nofail_ok_def split: sum.splits)
  done

lemma quantseq_trace_nofail_ok: "list_all quantseq_nofail_ok (quantseq_trace a p s)"
proof -
  have "list_all quantseq_nofail_ok (fst (run (quantseq_stages a p (snd (merge_bams s)))))"
    by (rule run_list_all[OF quantseq_stages_nofail_ok])
  moreover have "list_all quantseq_nofail_ok (fst (merge_bams s))"
    by (simp add: merge_bams_events quantseq_nofail_ok_def split: unmapped_bam.splits)
  ultimately show ?thesis
    by (simp add: quantseq_process_unfold) (simp add: quantseq_nofail_ok_def)
qed



lemma call_flags_append: "call_flags (xs @ ys) = call_flags xs @ call_flags ys"
  by (simp add: call_flags_def)

lemma call_flags_simps:
  "call_flags [] = []"
  "call_flags (CallLock c t l sh nf # es) = (call_name (CallLock c t l sh nf), nf) # call_flags es"
  "call_flags (Print m # es) = call_flags es"
  "call_flags (Pypiper n d ar # es) = call_flags es"
  "call_flags (Timestamp m # es) = call_flags es"
  "call_flags (CleanAdd f b # es) = call_flags es"
  "call_flags (Makedirs d # es) = call_flags es"
  "call_flags (LinkToTrackHub kw # es) = call_flags es"
  "call_flags (StopPipeline # es) = call_flags es"
  by (simp_all add: call_flags_def)

lemma call_flags_if:
  "call_flags (if c then xs else ys) = (if c then call_flags xs else call_flags ys)"
  by simp

lemma nofail_names_flags:
  "map call_name (filter is_nofail es) = map fst (filter snd (call_flags es))"
proof (induction es)
  case Nil
  then show ?case by (simp add: call_flags_def)
next
  case (Cons e es)
  then show ?case by (cases e) (simp_all add: call_flags_def)
qed

lemma calls_of_flags:
  "map is_nofail (calls_of t es) = map snd (filter (\<lambda>nf. fst nf = Some t) (call_flags es))"
proof (induction es)
  case Nil
  then show ?case by (simp add: call_flags_def calls_of_def)
next
  case (Cons e es)
  then show ?case by (cases e) (simp_all add: call_flags_def calls_of_def)
qed

lemma call_flags_merge:
  "call_flags (fst (merge_bams s)) =
     (case unmappedBam s of Paths bams \<Rightarrow> [(Some ''mergeBams'', False)] | Path x \<Rightarrow> [])"
  by (simp add: merge_bams_events call_flags_simps split: unmapped_bam.splits)

lemma call_flags_upto_qc:
  "call_flags (fst (fastqc s)) = [(Some ''fastqc'', False)]"
  "call_flags (fst (bam2fastq s)) = [(Some ''bam2fastq'', False)]"
  "call_flags (fst (trim_reads a p s)) =
     (if trimmer a = ''trimmomatic'' then [(Some ''trimmomatic'', False)]
      else if trimmer a = ''skewer'' then [(Some ''skewer'', False)] else [])"
  "call_flags (fst (map_reads a p s)) =
     (if genomes (prj_config p) (genome s) = None then [] else [(Some ''bowtie2Map'', False)])"
  "call_flags (fst (filter_reads a s)) = [(Some ''filterReads'', False)]"
  "call_flags (fst (shift_reads s)) = (if tagmented s then [(Some ''shiftReads'', False)] else [])"
  "call_flags (fst (index_bams s)) =
     [(Some ''indexBam'', False), (Some ''indexBam'', False)]
     @ (if tagmented s then [(Some ''indexBam'', False)] else [])"
  "call_flags (fst (make_tracks p s)) =
     (if chrsizes (prj_config p) (genome s) = None then []
      else [(Some ''bamToBigWig'', False), (Some ''addTrackToHub'', False)])"
  "call_flags (fst (genome_coverage p s)) =
     (if genomewindows (prj_config p) (genome s) = None then []
      else [(Some ''genomeWideCoverage'', False)])"
  "call_flags (fst (signal_noise a s)) = [(Some ''peakTools'', True)]"
  by (simp_all add: upto_qc_defs fst_emit fst_raise lookup_def call_flags_simps call_flags_append
      call_flags_if split: option.splits)

lemma call_flags_peak_stages:
  "call_flags (fst (call_peaks a x s c)) =
     (if peak_caller a = ''macs2'' then [(Some ''macs2CallPeaks'', False), (Some ''macs2PlotModel'', False)]
      else if peak_caller a = ''spp'' then [(Some ''sppCallPeaks'', False)] else [])"
  "call_flags (fst (find_motifs s)) =
     (if \<not> histone s then [(Some ''homerFindMotifs'', False), (Some ''homerFindMotifs'', False)]
      else [(Some ''homerFindMotifs'', False)])"
  "call_flags (fst (center_peaks p s)) = [(Some ''centerPeaksOnMotifs'', False)]"
  "call_flags (fst (annotate_peaks s)) = [(Some ''AnnotatePeaks'', False)]"
  "call_flags (fst (plot_peak_enrichment p s)) = [(Some ''peakAnalysis'', True)]"
  "call_flags (fst (plot_tss_enrichment p s)) =
     (if tss (prj_config p) (genome s) = None then [] else [(Some ''tssAnalysis'', True)])"
  "call_flags (fst (calculate_frip s)) = [(Some ''calculateFRiP'', False)]"
  "call_flags (fst (finish s)) = []"
  by (simp_all add: peak_defs fst_emit fst_raise lookup_def call_flags_simps call_flags_append
      call_flags_if split: option.splits)

lemma call_flags_quantseq:
  "call_flags (fst (q_trim_reads a p s)) = [(None, False)]"
  "call_flags (fst (q_map_tophat a p s)) =
     (if genomes (prj_config p) (genome s) = None \<or> transcriptomes (prj_config p) (genome s) = None
      then [] else [(Some ''topHatMap'', False)])"
  "call_flags (fst (q_map_ercc a p s)) =
     (if genomes (prj_config p) ''ercc'' = None then [] else [(Some ''bowtie2Map'', False)])"
  "call_flags (fst (q_filter_reads a s)) = [(Some ''filterReads'', False), (Some ''filterReads'', False)]"
  "call_flags (fst (q_sort_index s)) = [(Some ''sortIndexBam'', False), (Some ''sortIndexBam'', False)]"
  "call_flags (fst (q_quantify p s)) =
     (if transcriptomes (prj_config p) (genome s) = None then [] else [(Some ''htSeqCount'', False)])"
  "call_flags (fst (q_quantify_ercc p s)) =
     (if transcriptomes (prj_config p) ''ercc'' = None then [] else [(Some ''htSeqCount'', True)])"
  "call_flags (fst (q_kallisto a p s)) =
     (if kallistoindex (prj_config p) (genome s) = None then [] else [(Some ''kallisto'', True)])"
  by (simp_all add: quant_defs fst_emit fst_raise lookup_def call_flags_simps call_flags_append
      call_flags_if split: option.splits)


lemma calls_of_append: "calls_of t (xs @ ys) = calls_of t xs @ calls_of t ys"
  by (simp add: calls_of_def)

lemma calls_of_simps:
  "calls_of t [] = []"
  "calls_of t (e # es) = (if call_name e = Some t then e # calls_of t es else calls_of t es)"
  by (simp_all add: calls_of_def)

lemma calls_of_none: "Some t \<notin> fst ` set (call_flags es) \<Longrightarrow> calls_of t es = []"
proof (induction es)
  case Nil
  then show ?case by (simp add: calls_of_def)
next
  case (Cons e es)
  then show ?case by (cases e) (auto simp: calls_of_def call_flags_def)
qed

lemma chipseq_full_flags:
  assumes "ctrl s = Some c" and "peak_caller a \<noteq> ''zinba''" and "genome_configured p s"
    and "tss (prj_config p) (genome s) \<noteq> None"
  shows "call_flags (chipseq_trace a p x s) =
     call_flags (fst (merge_bams s))
     @ [(Some ''fastqc'', False), (Some ''bam2fastq'', False)]
     @ call_flags (fst (trim_reads a p s))
     @ [(Some ''bowtie2Map'', False), (Some ''filterReads'', False)]
     @ call_flags (fst (shift_reads s))
     @ call_flags (fst (index_bams s))
     @ [(Some ''bamToBigWig'', False), (Some ''addTrackToHub'', False),
        (Some ''genomeWideCoverage'', False), (Some ''peakTools'', True)]
     @ call_flags (fst (call_peaks a x s c))
     @ call_flags (fst (find_motifs s))
     @ [(Some ''centerPeaksOnMotifs'', False), (Some ''AnnotatePeaks'', False),
        (Some ''peakAnalysis'', True), (Some ''tssAnalysis'', True),
        (Some ''calculateFRiP'', False)]"
  using assms(3,4)
  by (simp add: chipseq_full_run[OF assms] chipseq_upto_qc_def chipseq_peak_stages_def
      call_flags_append call_flags_simps call_flags_upto_qc call_flags_peak_stages
      genome_configured_def merge_bams_sample)

lemma quantseq_full_flags:
  assumes "quant_configured p s"
  shows "call_flags (quantseq_trace a p s) =
     call_flags (fst (merge_bams s))
     @ [(Some ''fastqc'', False), (Some ''bam2fastq'', False), (None, False),
        (Some ''topHatMap'', False), (Some ''bowtie2Map'', False),
        (Some ''filterReads'', False), (Some ''filterReads'', False),
        (Some ''sortIndexBam'', False), (Some ''sortIndexBam'', False),
        (Some ''htSeqCount'', False), (Some ''htSeqCount'', True), (Some ''kallisto'', True)]"
  using assms
  by (simp add: quantseq_full_run[OF assms] quantseq_stages_def
      call_flags_append call_flags_simps call_flags_upto_qc call_flags_peak_stages
      call_flags_quantseq quant_configured_def merge_bams_sample)


lemma quantseq_htseq_calls:
  assumes "quant_configured p s"
  shows "map (\<lambda>e. (kwarg ''output'' e, is_nofail e)) (calls_of ''htSeqCount'' (quantseq_trace a p s)) =
           [(Some (Str (quant s)), False), (Some (Str (erccQuant s)), True)]"
proof -
  define s' where "s' = snd (merge_bams s)"
  have c: "transcriptomes (prj_config p) (genome s') \<noteq> None"
      "transcriptomes (prj_config p) ''ercc'' \<noteq> None"
      "genomes (prj_config p) (genome s') \<noteq> None"
      "genomes (prj_config p) ''ercc'' \<noteq> None"
      "kallistoindex (prj_config p) (genome s') \<noteq> None"
    using assms by (simp_all add: quant_configured_def s'_def merge_bams_sample)
  have f: "quant s' = quant s" "erccQuant s' = erccQuant s"
    by (simp_all add: s'_def merge_bams_sample)
  have m: "calls_of ''htSeqCount'' (fst (merge_bams s)) = []"
    by (cases "unmappedBam s") (simp_all add: merge_bams_def calls_of_def)
  have q1: "map (\<lambda>e. (kwarg ''output'' e, is_nofail e)) (calls_of ''htSeqCount'' (fst (q_quantify p s')))
      = [(Some (Str (quant s)), False)]"
    using c by (auto simp: q_quantify_def lookup_def fst_emit calls_of_def f)
  have q2: "map (\<lambda>e. (kwarg ''output'' e, is_nofail e)) (calls_of ''htSeqCount'' (fst (q_quantify_ercc p s')))
      = [(Some (Str (erccQuant s)), True)]"
    using c by (auto simp: q_quantify_ercc_def lookup_def fst_emit calls_of_def f)
  have others: "calls_of ''htSeqCount'' (fst (fastqc s')) = []"
    "calls_of ''htSeqCount'' (fst (bam2fastq s')) = []"
    "calls_of ''htSeqCount'' (fst (q_trim_reads a p s')) = []"
    "calls_of ''htSeqCount'' (fst (q_map_tophat a p s')) = []"
    "calls_of ''htSeqCount'' (fst (q_map_ercc a p s')) = []"
    "calls_of ''htSeqCount'' (fst (q_filter_reads a s')) = []"
    "calls_of ''htSeqCount'' (fst (q_sort_index s')) = []"
    "calls_of ''htSeqCount'' (fst (q_kallisto a p s')) = []"
    "calls_of ''htSeqCount'' (fst (finish s')) = []"
    using c by (simp_all add: calls_of_none call_flags_upto_qc call_flags_quantseq call_flags_peak_stages)
  show ?thesis
    unfolding quantseq_full_run[OF assms] s'_def[symmetric] fst_conv quantseq_stages_def
    by (simp add: calls_of_append calls_of_simps m others q1 q2)
qed

text \<open>
  C5.  In every ChIP-seq run a \<^verbatim>\<open>call_lock\<close> has \<^verbatim>\<open>nofail=True\<close> exactly if it calls the
  signal/noise tool or one of the two enrichment plots; in a run that reaches the end
  these three are the failure-tolerant calls, in this order, and the FRiP call is made
  once, without \<^verbatim>\<open>nofail\<close>.  In every Quant-seq run a failure-tolerant call is a count-based
  or a kallisto quantification; in a run that reaches the end the failure-tolerant calls
  are the ERCC count and kallisto, and of the two count-based quantifications the one
  writing \<^verbatim>\<open>sample.quant\<close> is not tolerant and the one writing \<^verbatim>\<open>sample.erccQuant\<close> is.
\<close>

theorem nofail_policy:
  "list_all chipseq_nofail_ok (chipseq_trace a p x s) \<and>
   (ctrl s \<noteq> None \<and> peak_caller a \<noteq> ''zinba'' \<and> genome_configured p s \<and>
      tss (prj_config p) (genome s) \<noteq> None \<longrightarrow>
      map call_name (filter is_nofail (chipseq_trace a p x s)) =
        [Some ''peakTools'', Some ''peakAnalysis'', Some ''tssAnalysis''] \<and>
      map is_nofail (calls_of ''calculateFRiP'' (chipseq_trace a p x s)) = [False]) \<and>
   list_all quantseq_nofail_ok (quantseq_trace a p s) \<and>
   (quant_configured p s \<longrightarrow>
      map call_name (filter is_nofail (quantseq_trace a p s)) =
        [Some ''htSeqCount'', Some ''kallisto''] \<and>
      map (\<lambda>e. (kwarg ''output'' e, is_nofail e)) (calls_of ''htSeqCount'' (quantseq_trace a p s)) =
        [(Some (Str (quant s)), False), (Some (Str (erccQuant s)), True)])"
proof -
  have chip: "map call_name (filter is_nofail (chipseq_trace a p x s)) =
        [Some ''peakTools'', Some ''peakAnalysis'', Some ''tssAnalysis''] \<and>
      map is_nofail (calls_of ''calculateFRiP'' (chipseq_trace a p x s)) = [False]"
    if h: "ctrl s \<noteq> None" "peak_caller a \<noteq> ''zinba''" "genome_configured p s"
      "tss (prj_config p) (genome s) \<noteq> None"
  proof -
    from h(1) obtain c where c: "ctrl s = Some c" by auto
    show ?thesis
      unfolding nofail_names_flags calls_of_flags chipseq_full_flags[OF c h(2,3,4)]
      by (simp add: call_flags_merge call_flags_upto_qc call_flags_peak_stages
          split: unmapped_bam.splits)
  qed
  have quant: "map call_name (filter is_nofail (quantseq_trace a p s)) =
        [Some ''htSeqCount'', Some ''kallisto'']" if h: "quant_configured p s"
    unfolding nofail_names_flags quantseq_full_flags[OF h]
    by (simp add: call_flags_merge split: unmapped_bam.splits)
  from chip quant quantseq_htseq_calls chipseq_trace_nofail_ok quantseq_trace_nofail_ok
  show ?thesis by blast
qed

theorem nofail_policy_witness:
  "ctrl ex_sample_ctrl \<noteq> None \<and> peak_caller ex_args \<noteq> ''zinba'' \<and>
   genome_configured ex_project ex_sample_ctrl \<and>
   tss (prj_config ex_project) (genome ex_sample_ctrl) \<noteq> None \<and>
   quant_configured ex_project ex_sample_ctrl \<and>
   map call_name (filter is_nofail (chipseq_trace ex_args ex_project ex_exists ex_sample_ctrl)) =
     [Some ''peakTools'', Some ''peakAnalysis'', Some ''tssAnalysis''] \<and>
   map is_nofail (calls_of ''calculateFRiP'' (chipseq_trace ex_args ex_project ex_exists ex_sample_ctrl)) =
     [False] \<and>
   map call_name (filter is_nofail (quantseq_trace ex_args ex_project ex_sample_ctrl)) =
     [Some ''htSeqCount'', Some ''kallisto''] \<and>
   map (\<lambda>e. (kwarg ''output'' e, is_nofail e))
     (calls_of ''htSeqCount'' (quantseq_trace ex_args ex_project ex_sample_ctrl)) =
     [(Some (Str ''/prj/s1/quant/s1.tsv''), False), (Some (Str ''/prj/s1/quant/s1_ercc.tsv''), True)]"
proof -
  have h: "ctrl ex_sample_ctrl \<noteq> None" "peak_caller ex_args \<noteq> ''zinba''"
      "genome_configured ex_project ex_sample_ctrl"
      "tss (prj_config ex_project) (genome ex_sample_ctrl) \<noteq> None"
      "quant_configured ex_project ex_sample_ctrl"
    by (simp_all add: ex_sample_ctrl_def ex_sample_def ex_args_def ex_project_def
        ex_genome_map_def genome_configured_def quant_configured_def)
  have f: "quant ex_sample_ctrl = ''/prj/s1/quant/s1.tsv''"
      "erccQuant ex_sample_ctrl = ''/prj/s1/quant/s1_ercc.tsv''"
    by (simp_all add: ex_sample_ctrl_def ex_sample_def)
  from nofail_policy[of ex_args ex_project ex_exists ex_sample_ctrl] h f
  show ?thesis by simp
qed

section \<open>The tools a run can call\<close>

lemma within_no_calls:
  "list_all (within tools) es \<Longrightarrow> t \<notin> set tools
     \<Longrightarrow> calls_of t es = []"
  by (auto simp: calls_of_def list_all_iff filter_empty_conv within_def)

lemma upto_qc_within:
  "list_all (within upstream_tools)
     (concat (map fst (chipseq_upto_qc a p s)))"
  unfolding chipseq_upto_qc_def list.map concat.simps list_all_append
  apply (intro conjI)
  apply (simp_all add: upto_qc_defs fst_emit fst_raise upstream_tools_def within_def split: sum.splits)
  done

lemma peak_stages_within:
  "list_all (within downstream_tools)
     (concat (map fst (chipseq_peak_stages a p x s c)))"
  unfolding chipseq_peak_stages_def list.map concat.simps list_all_append
  apply (intro conjI)
  apply (simp_all add: peak_defs fst_emit fst_raise downstream_tools_def within_def split: sum.splits)
  done

lemma quantseq_stages_within:
  "list_all (within quantseq_tools)
     (concat (map fst (quantseq_stages a p s)))"
  unfolding quantseq_stages_def list.map concat.simps list_all_append
  apply (intro conjI)
  apply (simp_all add: quant_defs fst_emit fst_raise quantseq_tools_def within_def split: sum.splits)
  done

lemma list_all_mono_tools:
  "list_all (within xs) es \<Longrightarrow> set xs \<subseteq> set ys
     \<Longrightarrow> list_all (within ys) es"
  by (auto simp: list_all_iff within_def split: option.splits)

lemma after_qc_within:
  "list_all (within downstream_tools)
     (fst (chipseq_after_qc a p x s))"
proof (cases "ctrl s")
  case None
  then show ?thesis by (simp add: chipseq_after_qc_def fst_emit within_def)
next
  case (Some c)
  then show ?thesis
    by (simp add: chipseq_after_qc_def run_list_all[OF peak_stages_within])
qed

lemma chipseq_run_within:
  "list_all (within (upstream_tools @ downstream_tools))
     (fst (run (chipseq_upto_qc a p s @ [chipseq_after_qc a p x s])))"
proof -
  have 1: "list_all (within (upstream_tools @ downstream_tools))
     (concat (map fst (chipseq_upto_qc a p s)))"
    by (rule list_all_mono_tools[OF upto_qc_within]) simp
  have 2: "list_all (within (upstream_tools @ downstream_tools))
     (fst (chipseq_after_qc a p x s))"
    by (rule list_all_mono_tools[OF after_qc_within]) simp
  show ?thesis
    by (rule run_list_all) (use 1 2 in simp)
qed

lemma chipseq_run_no_merge:
  "calls_of ''mergeBams'' (fst (run (chipseq_upto_qc a p s @ [chipseq_after_qc a p x s]))) = []"
  by (rule within_no_calls[OF chipseq_run_within])
     (simp add: upstream_tools_def downstream_tools_def)

lemma quantseq_run_no_merge:
  "calls_of ''mergeBams'' (fst (run (quantseq_stages a p s))) = []"
  by (rule within_no_calls[OF run_list_all[OF quantseq_stages_within]])
     (simp add: quantseq_tools_def)

lemma merge_bams_calls:
  "calls_of ''mergeBams'' (fst (merge_bams s)) =
     (case unmappedBam s of Paths bams \<Rightarrow> [merge_call bams s] | Path b \<Rightarrow> [])"
  by (cases "unmappedBam s") (simp_all add: merge_bams_def calls_of_def merge_call_def)

lemma chipseq_merge_calls:
  "calls_of ''mergeBams'' (chipseq_trace a p x s) =
     (case unmappedBam s of Paths bams \<Rightarrow> [merge_call bams s] | Path b \<Rightarrow> [])"
  by (simp add: chipseq_process_unfold calls_of_append calls_of_simps chipseq_run_no_merge
      merge_bams_calls)

lemma quantseq_merge_calls:
  "calls_of ''mergeBams'' (quantseq_trace a p s) =
     (case unmappedBam s of Paths bams \<Rightarrow> [merge_call bams s] | Path b \<Rightarrow> [])"
  by (simp add: quantseq_process_unfold calls_of_append calls_of_simps quantseq_run_no_merge
      merge_bams_calls)

lemma sample_after:
  "chipseq_sample_after a p x s = snd (merge_bams s)"
  "quantseq_sample_after a p s = snd (merge_bams s)"
  by (simp_all add: chipseq_process_unfold quantseq_process_unfold)

lemma main_merge_calls:
  "calls_of ''mergeBams'' (fst (chipseq_main pk (p, s, a) x)) =
     calls_of ''mergeBams'' (chipseq_trace a p x s)"
  "calls_of ''mergeBams'' (fst (quantseq_main pk (p, s, a))) =
     calls_of ''mergeBams'' (quantseq_trace a p s)"
  by (cases "chipseq_process a p x s" rule: prod_cases3,
      auto simp: chipseq_main_def calls_of_def split: sum.splits,
      cases "quantseq_process a p s" rule: prod_cases3,
      auto simp: quantseq_main_def calls_of_def split: sum.splits)

text \<open>
  C6 (as amended).  In one run of either script: when \<^verbatim>\<open>sample.unmappedBam\<close> is a list (of
  any length, so also of more than one path) exactly one merge call is issued, on that
  list, and the sample is left with \<^verbatim>\<open>unmappedBam\<close> equal to the single path
  \<^verbatim>\<open>sample.unmapped\<close>; when it is a single path no merge call is issued and the sample is
  left as it was; so no run has more than one merge call.  A run of \<^verbatim>\<open>main\<close> takes the
  sample from the pickle, whatever the file system holds: as long as the pickle holds the
  list, every run of \<^verbatim>\<open>main\<close> on it issues the merge call again.
\<close>

theorem merge_replicates_per_run:
  "(unmappedBam s = Paths bams \<longrightarrow>
      calls_of ''mergeBams'' (chipseq_trace a p x s) = [merge_call bams s] \<and>
      unmappedBam (chipseq_sample_after a p x s) = Path (unmapped s) \<and>
      calls_of ''mergeBams'' (quantseq_trace a p s) = [merge_call bams s] \<and>
      unmappedBam (quantseq_sample_after a p s) = Path (unmapped s) \<and>
      calls_of ''mergeBams'' (fst (chipseq_main pk (p, s, a) x)) = [merge_call bams s] \<and>
      calls_of ''mergeBams'' (fst (quantseq_main pk (p, s, a))) = [merge_call bams s]) \<and>
   (unmappedBam s = Path b \<longrightarrow>
      calls_of ''mergeBams'' (chipseq_trace a p x s) = [] \<and>
      chipseq_sample_after a p x s = s \<and>
      calls_of ''mergeBams'' (quantseq_trace a p s) = [] \<and>
      quantseq_sample_after a p s = s \<and>
      calls_of ''mergeBams'' (fst (chipseq_main pk (p, s, a) x)) = [] \<and>
      calls_of ''mergeBams'' (fst (quantseq_main pk (p, s, a))) = []) \<and>
   length (calls_of ''mergeBams'' (chipseq_trace a p x s)) \<le> 1 \<and>
   length (calls_of ''mergeBams'' (quantseq_trace a p s)) \<le> 1"
  by (cases "unmappedBam s")
     (simp_all add: main_merge_calls chipseq_merge_calls quantseq_merge_calls sample_after
        merge_bams_def)

theorem merge_replicates_per_run_witness:
  "unmappedBam ex_sample = Paths [''/raw/s1_a.bam'', ''/raw/s1_b.bam''] \<and>
   1 < length [''/raw/s1_a.bam'', ''/raw/s1_b.bam''] \<and>
   calls_of ''mergeBams'' (chipseq_trace ex_args ex_project ex_exists ex_sample) =
     [merge_call [''/raw/s1_a.bam'', ''/raw/s1_b.bam''] ex_sample] \<and>
   unmappedBam (chipseq_sample_after ex_args ex_project ex_exists ex_sample) = Path ''/prj/s1/unmapped/s1.bam'' \<and>
   calls_of ''mergeBams'' (fst (quantseq_main ''/prj/s1.pickle'' (ex_project, ex_sample, ex_args))) =
     [merge_call [''/raw/s1_a.bam'', ''/raw/s1_b.bam''] ex_sample] \<and>
   unmappedBam ex_sample_single = Path ''/raw/s1.bam'' \<and>
   calls_of ''mergeBams'' (quantseq_trace ex_args ex_project ex_sample_single) = [] \<and>
   quantseq_sample_after ex_args ex_project ex_sample_single = ex_sample_single"
proof -
  have h1: "unmappedBam ex_sample = Paths [''/raw/s1_a.bam'', ''/raw/s1_b.bam'']"
    and u: "unmapped ex_sample = ''/prj/s1/unmapped/s1.bam''"
    by (simp_all add: ex_sample_def)
  have h2: "unmappedBam ex_sample_single = Path ''/raw/s1.bam''"
    by (simp add: ex_sample_single_def)
  note r1 = merge_replicates_per_run
         [where s = ex_sample and bams = "[''/raw/s1_a.bam'', ''/raw/s1_b.bam'']"
            and a = ex_args and p = ex_project and x = ex_exists and pk = "''/prj/s1.pickle''"]
  note r2 = merge_replicates_per_run
         [where s = ex_sample_single and b = "''/raw/s1.bam''" and a = ex_args and p = ex_project]
  from r1 h1 have a: "calls_of ''mergeBams'' (chipseq_trace ex_args ex_project ex_exists ex_sample) =
     [merge_call [''/raw/s1_a.bam'', ''/raw/s1_b.bam''] ex_sample]"
    and b: "unmappedBam (chipseq_sample_after ex_args ex_project ex_exists ex_sample) = Path (unmapped ex_sample)"
    and c: "calls_of ''mergeBams'' (fst (quantseq_main ''/prj/s1.pickle'' (ex_project, ex_sample, ex_args))) =
     [merge_call [''/raw/s1_a.bam'', ''/raw/s1_b.bam''] ex_sample]"
    by blast+
  from r2 h2 have d: "calls_of ''mergeBams'' (quantseq_trace ex_args ex_project ex_sample_single) = []"
    and e: "quantseq_sample_after ex_args ex_project ex_sample_single = ex_sample_single"
    by blast+
  from h1 h2 a b c d e u show ?thesis by simp
qed

text \<open>
  C6 as stated fails on a resume.  The dry run of \<^verbatim>\<open>main\<close> on the example sample, whose
  \<^verbatim>\<open>unmappedBam\<close> is a list, ends normally after issuing the merge call and leaves the pickle
  in place.  A second run on the same pickle, with every file of the first run present,
  issues the merge call again and again turns \<^verbatim>\<open>unmappedBam\<close> from the list into the single
  merged path.
\<close>

theorem merge_on_resume_counterexample:
  "unmappedBam ex_sample = Paths [''/raw/s1_a.bam'', ''/raw/s1_b.bam''] \<and>
   snd (chipseq_main ''/prj/s1.pickle'' (ex_project, ex_sample, ex_args_dry) ex_exists) = Inr () \<and>
   OsSystem ''rm /prj/s1.pickle''
     \<notin> set (fst (chipseq_main ''/prj/s1.pickle'' (ex_project, ex_sample, ex_args_dry) ex_exists)) \<and>
   calls_of ''mergeBams''
     (fst (chipseq_main ''/prj/s1.pickle'' (ex_project, ex_sample, ex_args_dry) ex_exists)) =
     [merge_call [''/raw/s1_a.bam'', ''/raw/s1_b.bam''] ex_sample] \<and>
   calls_of ''mergeBams''
     (fst (chipseq_main ''/prj/s1.pickle'' (ex_project, ex_sample, ex_args_dry) ex_exists_all)) =
     [merge_call [''/raw/s1_a.bam'', ''/raw/s1_b.bam''] ex_sample] \<and>
   unmappedBam (chipseq_sample_after ex_args_dry ex_project ex_exists_all ex_sample) =
     Path ''/prj/s1/unmapped/s1.bam''"
  by code_simp

section \<open>Motif discovery\<close>

lemma parse_sizes:
  "parse_nat ''50'' = Some 50" "parse_nat ''200'' = Some 200" "parse_nat ''1000'' = Some 1000"
  by (simp_all add: parse_nat_def digit_val_def)

lemma find_motifs_calls:
  "map (\<lambda>e. (kwarg ''outputDir'' e, window_size e, motif_count e))
      (calls_of ''homerFindMotifs'' (fst (find_motifs s))) =
     (if histone s then [(Some (Str (motifsDir s)), Some 1000, Some 20)]
      else [(Some (Str (motifsDir s)), Some 50, Some 8),
            (Some (Str (motifsDir s @ ''_cobinders'')), Some 200, Some 12)])"
  by (simp add: find_motifs_def fst_emit calls_of_simps window_size_def motif_count_def parse_sizes)

lemma find_motifs_wider:
  "\<not> histone s \<Longrightarrow>
     \<exists>self cob. calls_of ''homerFindMotifs'' (fst (find_motifs s)) = [self, cob] \<and>
        wider_window self cob \<and> more_motifs self cob"
  by (simp add: find_motifs_def fst_emit calls_of_simps window_size_def motif_count_def parse_sizes
      wider_window_def more_motifs_def)

lemma after_motifs_no_homer:
  "list_all (\<lambda>e. call_name e \<noteq> Some ''homerFindMotifs'')
     (concat (map fst [center_peaks p s, annotate_peaks s, plot_peak_enrichment p s,
        plot_tss_enrichment p s, calculate_frip s, finish s]))"
  unfolding list.map concat.simps list_all_append
  apply (intro conjI)
  apply (simp_all add: peak_defs fst_emit fst_raise split: sum.splits)
  done

lemma call_peaks_no_homer:
  "calls_of ''homerFindMotifs'' (fst (call_peaks a x s c)) = []"
  by (simp add: call_peaks_def fst_emit fst_raise calls_of_simps)

lemma call_peaks_ok: "peak_caller a \<noteq> ''zinba'' \<Longrightarrow> snd (call_peaks a x s c) = Inr ()"
  by (simp add: call_peaks_def snd_emit)

lemma find_motifs_ok: "snd (find_motifs s) = Inr ()"
  by (simp add: find_motifs_def snd_emit)

lemma peak_stages_homer:
  assumes "peak_caller a \<noteq> ''zinba''"
  shows "calls_of ''homerFindMotifs'' (fst (run (chipseq_peak_stages a p x s c))) =
           calls_of ''homerFindMotifs'' (fst (find_motifs s))"
proof -
  have "list_all (\<lambda>e. call_name e \<noteq> Some ''homerFindMotifs'')
     (fst (run [center_peaks p s, annotate_peaks s, plot_peak_enrichment p s,
        plot_tss_enrichment p s, calculate_frip s, finish s]))"
    by (rule run_list_all[OF after_motifs_no_homer])
  then have rest: "calls_of ''homerFindMotifs''
     (fst (run [center_peaks p s, annotate_peaks s, plot_peak_enrichment p s,
        plot_tss_enrichment p s, calculate_frip s, finish s])) = []"
    by (simp add: calls_of_def filter_empty_conv list_all_iff)
  show ?thesis
    unfolding chipseq_peak_stages_def
    by (simp only: run_ok_Cons[OF call_peaks_ok[OF assms]] run_ok_Cons[OF find_motifs_ok]
        fst_conv calls_of_append call_peaks_no_homer rest append_Nil append_Nil2)
qed

lemma chipseq_homer_calls:
  assumes "ctrl s = Some c" and "peak_caller a \<noteq> ''zinba''" and "genome_configured p s"
  shows "calls_of ''homerFindMotifs'' (chipseq_trace a p x s) =
           calls_of ''homerFindMotifs'' (fst (find_motifs s))"
proof -
  define s' where "s' = snd (merge_bams s)"
  have conf': "genome_configured p s'" using assms(3) by (simp add: s'_def merged_fields)
  have after: "chipseq_after_qc a p x s' = run (chipseq_peak_stages a p x s' c)"
    using assms(1) by (simp add: chipseq_after_qc_def s'_def merged_fields)
  have ok: "snd (run (chipseq_upto_qc a p s')) = Inr ()"
    by (simp add: upto_qc_ok[OF conf'])
  have up: "calls_of ''homerFindMotifs'' (fst (run (chipseq_upto_qc a p s'))) = []"
    by (rule within_no_calls[OF run_list_all[OF upto_qc_within]]) (simp add: upstream_tools_def)
  have m: "calls_of ''homerFindMotifs'' (fst (merge_bams s)) = []"
    by (cases "unmappedBam s") (simp_all add: merge_bams_def calls_of_def)
  have same: "find_motifs s' = find_motifs s"
    by (simp add: find_motifs_def s'_def merge_bams_sample)
  show ?thesis
    unfolding chipseq_process_unfold s'_def[symmetric] fst_conv
    by (simp add: run_append_ok[OF ok] run_single after calls_of_append calls_of_simps
        up m peak_stages_homer[OF assms(2)] same)
qed

text \<open>
  C7.  In a ChIP-seq run that reaches motif discovery (a control sample, a peak caller
  other than zinba, the genome configured), a histone sample gets exactly one motif
  search, with window 1000 and 20 motifs, and any other sample exactly two: the self
  search in \<^verbatim>\<open>motifsDir\<close> with window 50 and 8 motifs, then the co-binder search with
  window 200 and 12 motifs, so with a strictly larger window and strictly more motifs.
\<close>

theorem motif_searches:
  assumes "ctrl s = Some c" and "peak_caller a \<noteq> ''zinba''" and "genome_configured p s"
  shows "map (\<lambda>e. (kwarg ''outputDir'' e, window_size e, motif_count e))
           (calls_of ''homerFindMotifs'' (chipseq_trace a p x s)) =
         (if histone s then [(Some (Str (motifsDir s)), Some 1000, Some 20)]
          else [(Some (Str (motifsDir s)), Some 50, Some 8),
                (Some (Str (motifsDir s @ ''_cobinders'')), Some 200, Some 12)]) \<and>
         (histone s \<longrightarrow> length (calls_of ''homerFindMotifs'' (chipseq_trace a p x s)) = 1) \<and>
         (\<not> histone s \<longrightarrow>
            (\<exists>self cob. calls_of ''homerFindMotifs'' (chipseq_trace a p x s) = [self, cob] \<and>
               wider_window self cob \<and> more_motifs self cob))"
proof -
  have one: "length (calls_of ''homerFindMotifs'' (fst (find_motifs s))) = 1" if "histone s"
    using that by (simp add: find_motifs_def fst_emit calls_of_simps)
  show ?thesis
    unfolding chipseq_homer_calls[OF assms]
    using find_motifs_calls[of s] find_motifs_wider[of s] one by blast
qed

theorem motif_searches_witness:
  "ctrl ex_sample_ctrl = Some ex_ctrl \<and> peak_caller ex_args \<noteq> ''zinba'' \<and>
   genome_configured ex_project ex_sample_ctrl \<and> \<not> histone ex_sample_ctrl \<and>
   histone (ex_sample_ctrl\<lparr>histone := True\<rparr>) \<and>
   map (\<lambda>e. (window_size e, motif_count e))
     (calls_of ''homerFindMotifs'' (chipseq_trace ex_args ex_project ex_exists ex_sample_ctrl)) =
     [(Some 50, Some 8), (Some 200, Some 12)] \<and>
   length (calls_of ''homerFindMotifs''
     (chipseq_trace ex_args ex_project ex_exists (ex_sample_ctrl\<lparr>histone := True\<rparr>))) = 1"
proof -
  have h: "ctrl ex_sample_ctrl = Some ex_ctrl" "peak_caller ex_args \<noteq> ''zinba''"
      "genome_configured ex_project ex_sample_ctrl" "\<not> histone ex_sample_ctrl"
    by (simp_all add: ex_sample_ctrl_def ex_sample_def ex_args_def ex_project_def
        ex_genome_map_def genome_configured_def)
  have h': "ctrl (ex_sample_ctrl\<lparr>histone := True\<rparr>) = Some ex_ctrl"
      "genome_configured ex_project (ex_sample_ctrl\<lparr>histone := True\<rparr>)"
    using h by (simp_all add: genome_configured_def)
  have "map (\<lambda>e. (kwarg ''outputDir'' e, window_size e, motif_count e))
     (calls_of ''homerFindMotifs'' (chipseq_trace ex_args ex_project ex_exists ex_sample_ctrl)) =
     [(Some (Str (motifsDir ex_sample_ctrl)), Some 50, Some 8),
      (Some (Str (motifsDir ex_sample_ctrl @ ''_cobinders'')), Some 200, Some 12)]"
    using motif_searches[OF h(1,2,3), of ex_exists] h(4) by simp
  then have two: "map (\<lambda>e. (window_size e, motif_count e))
     (calls_of ''homerFindMotifs'' (chipseq_trace ex_args ex_project ex_exists ex_sample_ctrl)) =
     [(Some 50, Some 8), (Some 200, Some 12)]"
    by (auto simp: map_eq_Cons_conv)
  have one: "length (calls_of ''homerFindMotifs''
     (chipseq_trace ex_args ex_project ex_exists (ex_sample_ctrl\<lparr>histone := True\<rparr>))) = 1"
    using motif_searches[OF h'(1) h(2) h'(2), of ex_exists] by simp
  from h two one show ?thesis by simp
qed

section \<open>The trim stage of the ChIP-seq script\<close>

lemma trimmed_outputs_append:
  "trimmed_outputs (xs @ ys) = trimmed_outputs xs @ trimmed_outputs ys"
  by (simp add: trimmed_outputs_def)

lemma trimmed_outputs_none:
  "list_all (\<lambda>e. call_name e \<noteq> Some ''trimmomatic'' \<and> call_name e \<noteq> Some ''skewer'') es
     \<Longrightarrow> trimmed_outputs es = []"
  by (auto simp: trimmed_outputs_def list_all_iff filter_empty_conv)

lemma within_no_trimmer:
  "list_all (within tools) es \<Longrightarrow> ''trimmomatic'' \<notin> set tools \<Longrightarrow> ''skewer'' \<notin> set tools
     \<Longrightarrow> list_all (\<lambda>e. call_name e \<noteq> Some ''trimmomatic'' \<and> call_name e \<noteq> Some ''skewer'') es"
  by (auto simp: list_all_iff within_def split: option.splits)

lemma after_trim_no_trimmer:
  "list_all (\<lambda>e. call_name e \<noteq> Some ''trimmomatic'' \<and> call_name e \<noteq> Some ''skewer'')
     (concat (map fst [map_reads a p s, filter_reads a s, shift_reads s, index_bams s,
        make_tracks p s, genome_coverage p s, signal_noise a s]))"
  unfolding list.map concat.simps list_all_append
  apply (intro conjI)
  apply (simp_all add: upto_qc_defs fst_emit fst_raise split: sum.splits)
  done

lemma trim_reads_ok: "snd (trim_reads a p s) = Inr ()"
  by (simp add: trim_reads_def snd_emit)

lemma trim_stage_outputs:
  "trimmer a = ''skewer'' \<Longrightarrow> trimmed_outputs (fst (trim_reads a p s)) =
     (if paired s then [(''outputFastq1'', trimmed1 s), (''outputFastq2'', trimmed2 s)]
      else [(''outputFastq1'', trimmed s)])"
  "trimmer a = ''skewer'' \<Longrightarrow> cleanups (fst (trim_reads a p s)) =
     (if paired s then [trimmed1 s, trimmed2 s] else [trimmed s])"
  "trimmer a = ''trimmomatic'' \<Longrightarrow> trimmed_outputs (fst (trim_reads a p s)) =
     (if paired s
      then [(''outputFastq1'', trimmed1 s), (''outputFastq1unpaired'', trimmed1Unpaired s),
            (''outputFastq2'', trimmed2 s), (''outputFastq2unpaired'', trimmed2Unpaired s)]
      else [(''outputFastq1'', trimmed s)])"
  "trimmer a = ''trimmomatic'' \<Longrightarrow> cleanups (fst (trim_reads a p s)) =
     (if paired s then [trimmed1 s, trimmed1Unpaired s, trimmed2 s, trimmed2Unpaired s]
      else [trimmed s])"
  by (simp_all add: trim_reads_def fst_emit trimmed_outputs_def cleanups_def if_paired_def)

lemma head_no_trimmed_outputs:
  "trimmed_outputs (fst (merge_bams s)) = []"
  "trimmed_outputs (fst (fastqc s)) = []"
  "trimmed_outputs (fst (bam2fastq s)) = []"
  by (auto simp: merge_bams_events fastqc_def bam2fastq_def fst_emit trimmed_outputs_def
      split: unmapped_bam.splits)

lemma chipseq_trace_around_trim:
  "chipseq_trace a p x s =
     ([Print (''Start processing ChIP-seq sample '' @ name s @ ''.''), Pypiper ''pipe'' (sampleRoot (dirs s)) a]
        @ fst (merge_bams s) @ fst (fastqc (snd (merge_bams s))) @ fst (bam2fastq (snd (merge_bams s))))
     @ fst (trim_reads a p s)
     @ fst (run ([map_reads a p (snd (merge_bams s)), filter_reads a (snd (merge_bams s)),
          shift_reads (snd (merge_bams s)), index_bams (snd (merge_bams s)),
          make_tracks p (snd (merge_bams s)), genome_coverage p (snd (merge_bams s)),
          signal_noise a (snd (merge_bams s))] @ [chipseq_after_qc a p x (snd (merge_bams s))]))"
proof -
  have same: "trim_reads a p (snd (merge_bams s)) = trim_reads a p s"
    by (simp add: trim_reads_def merge_bams_sample if_paired_def)
  show ?thesis
    unfolding chipseq_process_unfold chipseq_upto_qc_def fst_conv append_Cons
    by (simp only: run_ok_Cons[OF head_ok(1)] run_ok_Cons[OF head_ok(2)]
        run_ok_Cons[OF trim_reads_ok] fst_conv same append_assoc append_Cons append_Nil)
qed

text \<open>
  C8.  The trim stage of the ChIP-seq script runs in every run, and its trimming call is
  the only one of the run.  With \<^verbatim>\<open>trimmer = "skewer"\<close> the call names one trimmed output
  (single-end) or two (paired: R1 and R2), none of them an unpaired one, and exactly these
  are registered for clean-up.  With \<^verbatim>\<open>trimmer = "trimmomatic"\<close> the call names one
  trimmed output (single-end) or four (paired: R1, R1 unpaired, R2, R2 unpaired), and
  exactly these are registered for clean-up.
\<close>

theorem chipseq_trim_outputs:
  "(trimmer a = ''skewer'' \<longrightarrow>
      trimmed_outputs (fst (trim_reads a p s)) =
        (if paired s then [(''outputFastq1'', trimmed1 s), (''outputFastq2'', trimmed2 s)]
         else [(''outputFastq1'', trimmed s)]) \<and>
      cleanups (fst (trim_reads a p s)) =
        (if paired s then [trimmed1 s, trimmed2 s] else [trimmed s])) \<and>
   (trimmer a = ''trimmomatic'' \<longrightarrow>
      trimmed_outputs (fst (trim_reads a p s)) =
        (if paired s
         then [(''outputFastq1'', trimmed1 s), (''outputFastq1unpaired'', trimmed1Unpaired s),
               (''outputFastq2'', trimmed2 s), (''outputFastq2unpaired'', trimmed2Unpaired s)]
         else [(''outputFastq1'', trimmed s)]) \<and>
      cleanups (fst (trim_reads a p s)) =
        (if paired s then [trimmed1 s, trimmed1Unpaired s, trimmed2 s, trimmed2Unpaired s]
         else [trimmed s])) \<and>
   trimmed_outputs (chipseq_trace a p x s) = trimmed_outputs (fst (trim_reads a p s)) \<and>
   (\<exists>pre post. chipseq_trace a p x s = pre @ fst (trim_reads a p s) @ post)"
proof -
  define s' where "s' = snd (merge_bams s)"
  have "list_all (\<lambda>e. call_name e \<noteq> Some ''trimmomatic'' \<and> call_name e \<noteq> Some ''skewer'')
     (fst (chipseq_after_qc a p x s'))"
    by (rule within_no_trimmer[OF after_qc_within]) (simp_all add: downstream_tools_def)
  then have "list_all (\<lambda>e. call_name e \<noteq> Some ''trimmomatic'' \<and> call_name e \<noteq> Some ''skewer'')
     (concat (map fst ([map_reads a p s', filter_reads a s', shift_reads s', index_bams s',
          make_tracks p s', genome_coverage p s', signal_noise a s'] @ [chipseq_after_qc a p x s'])))"
    using after_trim_no_trimmer[of a p s'] by simp
  then have rest: "trimmed_outputs
     (fst (run ([map_reads a p s', filter_reads a s', shift_reads s', index_bams s',
          make_tracks p s', genome_coverage p s', signal_noise a s'] @ [chipseq_after_qc a p x s']))) = []"
    by (intro trimmed_outputs_none run_list_all)
  have start: "trimmed_outputs [Print (''Start processing ChIP-seq sample '' @ name s @ ''.''),
      Pypiper ''pipe'' (sampleRoot (dirs s)) a] = []"
    by (simp add: trimmed_outputs_def)
  have whole: "trimmed_outputs (chipseq_trace a p x s) = trimmed_outputs (fst (trim_reads a p s))"
    unfolding chipseq_trace_around_trim s'_def[symmetric] trimmed_outputs_append
    by (simp only: rest start head_no_trimmed_outputs append_Nil append_Nil2)
  have inside: "\<exists>pre post. chipseq_trace a p x s = pre @ fst (trim_reads a p s) @ post"
    using chipseq_trace_around_trim[of a p x s] by blast
  from whole inside trim_stage_outputs[of a p s] show ?thesis by blast
qed

theorem chipseq_trim_outputs_witness:
  "trimmer ex_args = ''skewer'' \<and> paired ex_sample \<and>
   trimmer (ex_args\<lparr>trimmer := ''trimmomatic''\<rparr>) = ''trimmomatic'' \<and>
   trimmed_outputs (chipseq_trace ex_args ex_project ex_exists ex_sample) =
     [(''outputFastq1'', ''/prj/s1/unmapped/s1.1.trimmed.fastq''),
      (''outputFastq2'', ''/prj/s1/unmapped/s1.2.trimmed.fastq'')] \<and>
   cleanups (fst (trim_reads ex_args ex_project ex_sample)) =
     [''/prj/s1/unmapped/s1.1.trimmed.fastq'', ''/prj/s1/unmapped/s1.2.trimmed.fastq''] \<and>
   trimmed_outputs (chipseq_trace (ex_args\<lparr>trimmer := ''trimmomatic''\<rparr>) ex_project ex_exists ex_sample) =
     [(''outputFastq1'', ''/prj/s1/unmapped/s1.1.trimmed.fastq''),
      (''outputFastq1unpaired'', ''/prj/s1/unmapped/s1.1_unpaired.trimmed.fastq''),
      (''outputFastq2'', ''/prj/s1/unmapped/s1.2.trimmed.fastq''),
      (''outputFastq2unpaired'', ''/prj/s1/unmapped/s1.2_unpaired.trimmed.fastq'')] \<and>
   cleanups (fst (trim_reads (ex_args\<lparr>trimmer := ''trimmomatic''\<rparr>) ex_project ex_sample)) =
     [''/prj/s1/unmapped/s1.1.trimmed.fastq'', ''/prj/s1/unmapped/s1.1_unpaired.trimmed.fastq'',
      ''/prj/s1/unmapped/s1.2.trimmed.fastq'', ''/prj/s1/unmapped/s1.2_unpaired.trimmed.fastq'']"
proof -
  have h: "trimmer ex_args = ''skewer''" "paired ex_sample"
      "trimmer (ex_args\<lparr>trimmer := ''trimmomatic''\<rparr>) = ''trimmomatic''"
    by (simp_all add: ex_args_def ex_sample_def)
  have f: "trimmed1 ex_sample = ''/prj/s1/unmapped/s1.1.trimmed.fastq''"
      "trimmed2 ex_sample = ''/prj/s1/unmapped/s1.2.trimmed.fastq''"
      "trimmed1Unpaired ex_sample = ''/prj/s1/unmapped/s1.1_unpaired.trimmed.fastq''"
      "trimmed2Unpaired ex_sample = ''/prj/s1/unmapped/s1.2_unpaired.trimmed.fastq''"
    by (simp_all add: ex_sample_def)
  from chipseq_trim_outputs[of ex_args ex_project ex_sample ex_exists]
       chipseq_trim_outputs[of "ex_args\<lparr>trimmer := ''trimmomatic''\<rparr>" ex_project ex_sample ex_exists]
       h f
  show ?thesis by simp
qed

section \<open>The track hub\<close>

lemma before_tracks_no_hub:
  "calls_of ''addTrackToHub'' (fst (merge_bams s)) = []"
  "calls_of ''addTrackToHub'' (fst (fastqc s)) = []"
  "calls_of ''addTrackToHub'' (fst (bam2fastq s)) = []"
  "calls_of ''addTrackToHub'' (fst (trim_reads a p s)) = []"
  "calls_of ''addTrackToHub'' (fst (map_reads a p s)) = []"
  "calls_of ''addTrackToHub'' (fst (filter_reads a s)) = []"
  "calls_of ''addTrackToHub'' (fst (shift_reads s)) = []"
  "calls_of ''addTrackToHub'' (fst (index_bams s)) = []"
  by (auto simp: merge_bams_events upto_qc_defs fst_emit fst_raise calls_of_def
      split: unmapped_bam.splits sum.splits)

lemma before_tracks_ok:
  "genomes (prj_config p) (genome s) \<noteq> None \<Longrightarrow> snd (map_reads a p s) = Inr ()"
  "snd (filter_reads a s) = Inr ()"
  "snd (shift_reads s) = Inr ()"
  "snd (index_bams s) = Inr ()"
  "chrsizes (prj_config p) (genome s) \<noteq> None \<Longrightarrow> snd (make_tracks p s) = Inr ()"
  by (auto simp: upto_qc_defs snd_emit lookup_def)

lemma make_tracks_hub:
  "chrsizes (prj_config p) (genome s) \<noteq> None \<Longrightarrow>
     hub_appends (fst (make_tracks p s)) =
       [(Some (Str (path_join (html (prj_dirs p)) [''trackHub_'' @ genome s @ ''.txt''])),
         None, Some (name s @ ''addToTrackHub''))]"
  by (auto simp: make_tracks_def fst_emit lookup_def hub_appends_def calls_of_def)

lemma after_tracks_within:
  "list_all (within ([''genomeWideCoverage'', ''peakTools''] @ downstream_tools))
     (concat (map fst ([genome_coverage p s, signal_noise a s] @ [chipseq_after_qc a p x s])))"
proof -
  have 1: "list_all (within [''genomeWideCoverage'', ''peakTools''])
     (concat (map fst [genome_coverage p s, signal_noise a s]))"
    unfolding list.map concat.simps list_all_append
    apply (intro conjI)
    apply (simp_all add: genome_coverage_def signal_noise_def fst_emit fst_raise within_def
        split: sum.splits)
    done
  have 2: "list_all (within ([''genomeWideCoverage'', ''peakTools''] @ downstream_tools))
     (concat (map fst [genome_coverage p s, signal_noise a s]))"
    by (rule list_all_mono_tools[OF 1]) simp
  have 3: "list_all (within ([''genomeWideCoverage'', ''peakTools''] @ downstream_tools))
     (fst (chipseq_after_qc a p x s))"
    by (rule list_all_mono_tools[OF after_qc_within]) auto
  from 2 3 show ?thesis by simp
qed

lemma after_tracks_no_hub:
  "calls_of ''addTrackToHub''
     (fst (run ([genome_coverage p s, signal_noise a s] @ [chipseq_after_qc a p x s]))) = []"
  by (rule within_no_calls[OF run_list_all[OF after_tracks_within]])
     (simp add: downstream_tools_def)

lemma hub_appends_append: "hub_appends (xs @ ys) = hub_appends xs @ hub_appends ys"
  by (simp add: hub_appends_def calls_of_append)

lemma hub_appends_none: "calls_of ''addTrackToHub'' es = [] \<Longrightarrow> hub_appends es = []"
  by (simp add: hub_appends_def)

lemma chipseq_hub_appends:
  assumes "genomes (prj_config p) (genome s) \<noteq> None" and "chrsizes (prj_config p) (genome s) \<noteq> None"
  shows "hub_appends (chipseq_trace a p x s) =
           [(Some (Str (path_join (html (prj_dirs p)) [''trackHub_'' @ genome s @ ''.txt''])),
             None, Some (name s @ ''addToTrackHub''))]"
proof -
  define s' where "s' = snd (merge_bams s)"
  have g: "genomes (prj_config p) (genome s') \<noteq> None" "chrsizes (prj_config p) (genome s') \<noteq> None"
    using assms by (simp_all add: s'_def merge_bams_sample)
  have f: "genome s' = genome s" "name s' = name s"
    by (simp_all add: s'_def merge_bams_sample)
  have start: "hub_appends [Print (''Start processing ChIP-seq sample '' @ name s @ ''.''),
      Pypiper ''pipe'' (sampleRoot (dirs s)) a] = []"
    by (simp add: hub_appends_def calls_of_def)
  have r: "fst (run (chipseq_upto_qc a p s' @ [chipseq_after_qc a p x s'])) =
      fst (fastqc s') @ fst (bam2fastq s') @ fst (trim_reads a p s') @ fst (map_reads a p s')
      @ fst (filter_reads a s') @ fst (shift_reads s') @ fst (index_bams s') @ fst (make_tracks p s')
      @ fst (run ([genome_coverage p s', signal_noise a s'] @ [chipseq_after_qc a p x s']))"
    unfolding chipseq_upto_qc_def append_Cons append_Nil
    by (simp only: run_ok_Cons[OF head_ok(1)] run_ok_Cons[OF head_ok(2)]
        run_ok_Cons[OF trim_reads_ok] run_ok_Cons[OF before_tracks_ok(1)[OF g(1)]]
        run_ok_Cons[OF before_tracks_ok(2)] run_ok_Cons[OF before_tracks_ok(3)]
        run_ok_Cons[OF before_tracks_ok(4)] run_ok_Cons[OF before_tracks_ok(5)[OF g(2)]] fst_conv)
  show ?thesis
    unfolding chipseq_process_unfold s'_def[symmetric] fst_conv r hub_appends_append
    by (simp only: start hub_appends_none[OF before_tracks_no_hub(1)]
        hub_appends_none[OF before_tracks_no_hub(2)] hub_appends_none[OF before_tracks_no_hub(3)]
        hub_appends_none[OF before_tracks_no_hub(4)] hub_appends_none[OF before_tracks_no_hub(5)]
        hub_appends_none[OF before_tracks_no_hub(6)] hub_appends_none[OF before_tracks_no_hub(7)]
        hub_appends_none[OF before_tracks_no_hub(8)] hub_appends_none[OF after_tracks_no_hub]
        make_tracks_hub[OF g(2)] f append_Nil append_Nil2)
qed

text \<open>
  C9 (as amended).  In a ChIP-seq run that reaches the track stage (the genome has an
  index and chromosome sizes configured) the append to the track hub is issued exactly
  once, through a \<^verbatim>\<open>call_lock\<close> without target whose lock name is the sample's name
  followed by \<^verbatim>\<open>addToTrackHub\<close>; the hub file is \<^verbatim>\<open>trackHub_<genome>.txt\<close> in the project's html
  directory.  So for two samples of one genome in one project the hub file is the same,
  and the lock names are equal only if the sample names are.
\<close>

theorem track_hub_lock_per_sample:
  assumes "genomes (prj_config p) (genome s) \<noteq> None" and "chrsizes (prj_config p) (genome s) \<noteq> None"
  shows "hub_appends (chipseq_trace a p x s) =
           [(Some (Str (path_join (html (prj_dirs p)) [''trackHub_'' @ genome s @ ''.txt''])),
             None, Some (name s @ ''addToTrackHub''))] \<and>
         (genome s2 = genome s \<longrightarrow>
            map fst (hub_appends (chipseq_trace a p x s2)) =
              map fst (hub_appends (chipseq_trace a p x s)) \<and>
            (map (\<lambda>h. snd (snd h)) (hub_appends (chipseq_trace a p x s2)) =
               map (\<lambda>h. snd (snd h)) (hub_appends (chipseq_trace a p x s))) = (name s2 = name s))"
proof -
  have 2: "hub_appends (chipseq_trace a p x s2) =
           [(Some (Str (path_join (html (prj_dirs p)) [''trackHub_'' @ genome s @ ''.txt''])),
             None, Some (name s2 @ ''addToTrackHub''))]" if "genome s2 = genome s"
    using chipseq_hub_appends[of p s2 a x] assms that by simp
  show ?thesis
    using chipseq_hub_appends[OF assms, of a x] 2 by simp
qed

theorem track_hub_lock_per_sample_witness:
  "genomes (prj_config ex_project) (genome ex_sample) \<noteq> None \<and>
   chrsizes (prj_config ex_project) (genome ex_sample) \<noteq> None \<and>
   genome ex_sample2 = genome ex_sample \<and> name ex_sample2 \<noteq> name ex_sample \<and>
   hub_appends (chipseq_trace ex_args ex_project ex_exists ex_sample) =
     [(Some (Str (path_join ''/prj/html'' [''trackHub_hg19.txt''])), None, Some ''s1addToTrackHub'')] \<and>
   map fst (hub_appends (chipseq_trace ex_args ex_project ex_exists ex_sample2)) =
     map fst (hub_appends (chipseq_trace ex_args ex_project ex_exists ex_sample)) \<and>
   map (\<lambda>h. snd (snd h)) (hub_appends (chipseq_trace ex_args ex_project ex_exists ex_sample2)) \<noteq>
     map (\<lambda>h. snd (snd h)) (hub_appends (chipseq_trace ex_args ex_project ex_exists ex_sample))"
proof -
  have h: "genomes (prj_config ex_project) (genome ex_sample) \<noteq> None"
      "chrsizes (prj_config ex_project) (genome ex_sample) \<noteq> None"
      "genome ex_sample2 = genome ex_sample" "name ex_sample2 \<noteq> name ex_sample"
    by (simp_all add: ex_project_def ex_sample2_def ex_sample_def ex_genome_map_def)
  have f: "genome ex_sample = ''hg19''" "name ex_sample = ''s1''"
      "html (prj_dirs ex_project) = ''/prj/html''"
    by (simp_all add: ex_sample_def ex_project_def)
  note t = track_hub_lock_per_sample[OF h(1,2), of ex_args ex_exists ex_sample2]
  from t have "hub_appends (chipseq_trace ex_args ex_project ex_exists ex_sample) =
     [(Some (Str (path_join (html (prj_dirs ex_project)) [''trackHub_'' @ genome ex_sample @ ''.txt''])),
       None, Some (name ex_sample @ ''addToTrackHub''))]"
    by blast
  then have a: "hub_appends (chipseq_trace ex_args ex_project ex_exists ex_sample) =
     [(Some (Str (path_join ''/prj/html'' [''trackHub_hg19.txt''])), None, Some ''s1addToTrackHub'')]"
    by (simp add: f)
  from t h(3) have b: "map fst (hub_appends (chipseq_trace ex_args ex_project ex_exists ex_sample2)) =
     map fst (hub_appends (chipseq_trace ex_args ex_project ex_exists ex_sample))"
    by blast
  from t h(3,4) have c:
    "map (\<lambda>h. snd (snd h)) (hub_appends (chipseq_trace ex_args ex_project ex_exists ex_sample2)) \<noteq>
     map (\<lambda>h. snd (snd h)) (hub_appends (chipseq_trace ex_args ex_project ex_exists ex_sample))"
    by blast
  from h a b c show ?thesis by blast
qed

text \<open>
  C9 as stated fails: the two example samples have the same genome and append to the
  same hub file, under two different lock names.
\<close>

theorem track_hub_lock_counterexample:
  "genome ex_sample = genome ex_sample2 \<and>
   hub_appends (chipseq_trace ex_args ex_project ex_exists ex_sample) =
     [(Some (Str ''/prj/html/trackHub_hg19.txt''), None, Some ''s1addToTrackHub'')] \<and>
   hub_appends (chipseq_trace ex_args ex_project ex_exists ex_sample2) =
     [(Some (Str ''/prj/html/trackHub_hg19.txt''), None, Some ''s2addToTrackHub'')] \<and>
   ''s1addToTrackHub'' \<noteq> ''s2addToTrackHub''"
  by code_simp

section \<open>The clean-up after the early return\<close>

lemma cleanups_append: "cleanups (xs @ ys) = cleanups xs @ cleanups ys"
  by (simp add: cleanups_def)

lemma upto_qc_cleanups:
  "cleanups (fst (merge_bams s)) = []"
  "cleanups (fst (fastqc s)) = []"
  "cleanups (fst (bam2fastq s)) =
     (if paired s then [fastq1 s, fastq2 s, fastqUnpaired s] else [fastq s])"
  "cleanups (fst (trim_reads a p s)) =
     (if trimmer a = ''trimmomatic''
      then (if paired s then [trimmed1 s, trimmed1Unpaired s, trimmed2 s, trimmed2Unpaired s]
            else [trimmed s])
      else if trimmer a = ''skewer''
      then (if paired s then [trimmed1 s, trimmed2 s] else [trimmed s])
      else [])"
  "genomes (prj_config p) (genome s) \<noteq> None \<Longrightarrow> cleanups (fst (map_reads a p s)) = [mapped s]"
  "cleanups (fst (filter_reads a s)) = []"
  "cleanups (fst (shift_reads s)) = []"
  "cleanups (fst (index_bams s)) = []"
  "cleanups (fst (make_tracks p s)) = []"
  "cleanups (fst (genome_coverage p s)) = []"
  "cleanups (fst (signal_noise a s)) = []"
  by (auto simp: merge_bams_events upto_qc_defs fst_emit fst_raise cleanups_def lookup_def
      split: unmapped_bam.splits sum.splits)

lemma upto_qc_no_stop:
  "list_all (\<lambda>e. e \<noteq> StopPipeline) (concat (map fst (chipseq_upto_qc a p s)))"
  unfolding chipseq_upto_qc_def list.map concat.simps list_all_append
  apply (intro conjI)
  apply (simp_all add: upto_qc_defs fst_emit fst_raise split: sum.splits)
  done

lemma no_ctrl_no_stop:
  assumes "ctrl s = None"
  shows "list_all (\<lambda>e. e \<noteq> StopPipeline) (chipseq_trace a p x s)"
proof -
  define s' where "s' = snd (merge_bams s)"
  have after: "chipseq_after_qc a p x s' = emit [Print (''Finished processing sample '' @ name s @ ''.'')]"
    using assms by (simp add: chipseq_after_qc_def s'_def merged_fields)
  have "list_all (\<lambda>e. e \<noteq> StopPipeline)
          (concat (map fst (chipseq_upto_qc a p s' @ [chipseq_after_qc a p x s'])))"
    using upto_qc_no_stop[of a p s'] by (simp add: after fst_emit)
  then have "list_all (\<lambda>e. e \<noteq> StopPipeline)
          (fst (run (chipseq_upto_qc a p s' @ [chipseq_after_qc a p x s'])))"
    by (rule run_list_all)
  moreover have "list_all (\<lambda>e. e \<noteq> StopPipeline) (fst (merge_bams s))"
    by (simp add: merge_bams_events split: unmapped_bam.splits)
  ultimately show ?thesis
    by (simp add: chipseq_process_unfold s'_def)
qed

lemma no_ctrl_run:
  assumes "ctrl s = None" and "genome_configured p s"
  shows "chipseq_process a p x s =
     ([Print (''Start processing ChIP-seq sample '' @ name s @ ''.''), Pypiper ''pipe'' (sampleRoot (dirs s)) a]
        @ fst (merge_bams s)
        @ concat (map fst (chipseq_upto_qc a p (snd (merge_bams s))))
        @ [Print (''Finished processing sample '' @ name s @ ''.'')],
      snd (merge_bams s), Inr ())"
proof -
  define s' where "s' = snd (merge_bams s)"
  have conf': "genome_configured p s'" using assms(2) by (simp add: s'_def merged_fields)
  have after: "chipseq_after_qc a p x s' = emit [Print (''Finished processing sample '' @ name s @ ''.'')]"
    using assms(1) by (simp add: chipseq_after_qc_def s'_def merged_fields)
  have ok: "snd (run (chipseq_upto_qc a p s')) = Inr ()"
    by (simp add: upto_qc_ok[OF conf'])
  show ?thesis
    unfolding chipseq_process_unfold s'_def[symmetric]
    by (simp add: run_append_ok[OF ok] run_single after upto_qc_ok[OF conf'] fst_emit snd_emit)
qed

lemma no_ctrl_cleanups:
  assumes "ctrl s = None" and "genome_configured p s"
  shows "cleanups (chipseq_trace a p x s) =
           cleanups (fst (bam2fastq s)) @ cleanups (fst (trim_reads a p s)) @ [mapped s]"
proof -
  define s' where "s' = snd (merge_bams s)"
  have g: "genomes (prj_config p) (genome s') \<noteq> None"
    using assms(2) by (simp add: genome_configured_def s'_def merge_bams_sample)
  have same: "cleanups (fst (bam2fastq s')) = cleanups (fst (bam2fastq s))"
      "cleanups (fst (trim_reads a p s')) = cleanups (fst (trim_reads a p s))"
      "mapped s' = mapped s"
    by (simp_all add: upto_qc_cleanups(3,4) s'_def merge_bams_sample)
  have ends: "cleanups [Print (''Start processing ChIP-seq sample '' @ name s @ ''.''),
        Pypiper ''pipe'' (sampleRoot (dirs s)) a] = []"
      "cleanups [Print (''Finished processing sample '' @ name s @ ''.'')] = []"
      "cleanups [] = []"
    by (simp_all add: cleanups_def)
  have "cleanups (chipseq_trace a p x s) =
      cleanups (fst (bam2fastq s')) @ cleanups (fst (trim_reads a p s')) @ [mapped s']"
    unfolding no_ctrl_run[OF assms] s'_def[symmetric] fst_conv chipseq_upto_qc_def
      list.map concat.simps cleanups_append
    by (simp only: ends upto_qc_cleanups(1,2,6-11) upto_qc_cleanups(5)[OF g] append_Nil append_Nil2)
  then show ?thesis by (simp only: same)
qed

text \<open>
  C10.  For a sample without a control no run of the ChIP-seq \<^verbatim>\<open>main\<close> reaches
  \<^verbatim>\<open>pipe.stop_pipeline()\<close>.  When the genome of the sample is configured, the run has by then
  registered for clean-up the fastq files, the trimmed files of the selected trimmer and
  the mapped file, in this order; \<^verbatim>\<open>process\<close> returns normally, and \<^verbatim>\<open>main\<close> then removes the
  pickle unless \<^verbatim>\<open>dry_run\<close> is set, prints its message and exits with status 0.
\<close>

theorem no_ctrl_skips_finalize:
  assumes "ctrl s = None"
  shows "list_all (\<lambda>e. e \<noteq> StopPipeline) (fst (chipseq_main pk (p, s, a) x)) \<and>
         (genome_configured p s \<longrightarrow>
            cleanups (chipseq_trace a p x s) =
              (if paired s then [fastq1 s, fastq2 s, fastqUnpaired s] else [fastq s])
              @ cleanups (fst (trim_reads a p s)) @ [mapped s] \<and>
            chipseq_main pk (p, s, a) x =
              (chipseq_trace a p x s
                 @ (if \<not> dry_run a then [OsSystem (''rm '' @ pk)] else [])
                 @ [Print ''Finished and exiting.'', SysExit 0], Inr ()))"
proof -
  have stop: "list_all (\<lambda>e. e \<noteq> StopPipeline) (fst (chipseq_main pk (p, s, a) x))"
    using no_ctrl_no_stop[OF assms, of a p x]
    by (cases "chipseq_process a p x s" rule: prod_cases3)
       (auto simp: chipseq_main_def split: sum.splits)
  have rest: "cleanups (chipseq_trace a p x s) =
              (if paired s then [fastq1 s, fastq2 s, fastqUnpaired s] else [fastq s])
              @ cleanups (fst (trim_reads a p s)) @ [mapped s] \<and>
            chipseq_main pk (p, s, a) x =
              (chipseq_trace a p x s
                 @ (if \<not> dry_run a then [OsSystem (''rm '' @ pk)] else [])
                 @ [Print ''Finished and exiting.'', SysExit 0], Inr ())"
    if conf: "genome_configured p s"
  proof -
    have ok: "chipseq_outcome a p x s = Inr ()"
      by (simp add: no_ctrl_run[OF assms conf])
    have m: "chipseq_main pk (p, s, a) x =
              (chipseq_trace a p x s
                 @ (if \<not> dry_run a then [OsSystem (''rm '' @ pk)] else [])
                 @ [Print ''Finished and exiting.'', SysExit 0], Inr ())"
      using ok by (cases "chipseq_process a p x s" rule: prod_cases3)
        (simp add: chipseq_main_def)
    show ?thesis
      using no_ctrl_cleanups[OF assms conf, of a x] m by (simp add: upto_qc_cleanups(3))
  qed
  from stop rest show ?thesis by blast
qed

theorem no_ctrl_skips_finalize_witness:
  "ctrl ex_sample = None \<and> genome_configured ex_project ex_sample \<and> \<not> dry_run ex_args \<and>
   list_all (\<lambda>e. e \<noteq> StopPipeline)
     (fst (chipseq_main ''/prj/s1.pickle'' (ex_project, ex_sample, ex_args) ex_exists)) \<and>
   cleanups (chipseq_trace ex_args ex_project ex_exists ex_sample) =
     [''/prj/s1/unmapped/s1.1.fastq'', ''/prj/s1/unmapped/s1.2.fastq'',
      ''/prj/s1/unmapped/s1.unpaired.fastq'', ''/prj/s1/unmapped/s1.1.trimmed.fastq'',
      ''/prj/s1/unmapped/s1.2.trimmed.fastq'', ''/prj/s1/mapped/s1.bam''] \<and>
   chipseq_main ''/prj/s1.pickle'' (ex_project, ex_sample, ex_args) ex_exists =
     (chipseq_trace ex_args ex_project ex_exists ex_sample
        @ [OsSystem ''rm /prj/s1.pickle'', Print ''Finished and exiting.'', SysExit 0], Inr ())"
proof -
  have h: "ctrl ex_sample = None" by (simp add: ex_sample_def)
  have c: "genome_configured ex_project ex_sample"
    by (simp add: genome_configured_def ex_project_def ex_sample_def ex_genome_map_def)
  have d: "\<not> dry_run ex_args" by (simp add: ex_args_def)
  have f: "paired ex_sample" "fastq1 ex_sample = ''/prj/s1/unmapped/s1.1.fastq''"
      "fastq2 ex_sample = ''/prj/s1/unmapped/s1.2.fastq''"
      "fastqUnpaired ex_sample = ''/prj/s1/unmapped/s1.unpaired.fastq''"
      "mapped ex_sample = ''/prj/s1/mapped/s1.bam''"
    by (simp_all add: ex_sample_def)
  have t: "cleanups (fst (trim_reads ex_args ex_project ex_sample)) =
      [''/prj/s1/unmapped/s1.1.trimmed.fastq'', ''/prj/s1/unmapped/s1.2.trimmed.fastq'']"
    by (simp add: upto_qc_cleanups(4) ex_args_def ex_sample_def)
  note r = no_ctrl_skips_finalize[OF h, of "''/prj/s1.pickle''" ex_project ex_args ex_exists]
  from r have 1: "list_all (\<lambda>e. e \<noteq> StopPipeline)
     (fst (chipseq_main ''/prj/s1.pickle'' (ex_project, ex_sample, ex_args) ex_exists))"
    by blast
  from r c have "cleanups (chipseq_trace ex_args ex_project ex_exists ex_sample) =
      (if paired ex_sample then [fastq1 ex_sample, fastq2 ex_sample, fastqUnpaired ex_sample]
       else [fastq ex_sample])
      @ cleanups (fst (trim_reads ex_args ex_project ex_sample)) @ [mapped ex_sample]"
    by blast
  then have 2: "cleanups (chipseq_trace ex_args ex_project ex_exists ex_sample) =
     [''/prj/s1/unmapped/s1.1.fastq'', ''/prj/s1/unmapped/s1.2.fastq'',
      ''/prj/s1/unmapped/s1.unpaired.fastq'', ''/prj/s1/unmapped/s1.1.trimmed.fastq'',
      ''/prj/s1/unmapped/s1.2.trimmed.fastq'', ''/prj/s1/mapped/s1.bam'']"
    by (simp add: f t)
  from r c have "chipseq_main ''/prj/s1.pickle'' (ex_project, ex_sample, ex_args) ex_exists =
     (chipseq_trace ex_args ex_project ex_exists ex_sample
        @ (if \<not> dry_run ex_args then [OsSystem (''rm '' @ ''/prj/s1.pickle'')] else [])
        @ [Print ''Finished and exiting.'', SysExit 0], Inr ())"
    by blast
  then have 3: "chipseq_main ''/prj/s1.pickle'' (ex_project, ex_sample, ex_args) ex_exists =
     (chipseq_trace ex_args ex_project ex_exists ex_sample
        @ [OsSystem ''rm /prj/s1.pickle'', Print ''Finished and exiting.'', SysExit 0], Inr ())"
    using d by simp
  from h c d 1 2 3 show ?thesis by blast
qed

end
